theory Spec2Isabelle
  imports Complex_Main "HOL-Library.AList"
begin

section \<open>Fiducial selection: a shallow embedding of fiducialselection.py\<close>

text \<open>
  The development follows \<^verbatim>\<open>packages/pygsti/algorithms/fiducialselection.py\<close>.
  Every Python function keeps its name. Exceptions are values of the type \<open>error\<close>,
  the text written by \<^verbatim>\<open>print\<close> is a list of lines returned beside the result, and the
  score dictionary \<^verbatim>\<open>scoreD\<close> is a map that is passed along.
\<close>

subsection \<open>Floating point values\<close>

text \<open>
  A Python float is modelled as an exact real number or one of the three special values.
  Rounding, overflow and the sign of zero are not modelled: arithmetic on finite values is
  exact. The special values follow IEEE 754 as numpy applies it (\<open>0 * inf\<close> is NaN, division
  of one by zero is \<open>inf\<close>, every comparison with NaN is false).
\<close>

datatype pyfloat = Fl real | PInf | NInf | NaN

fun fl_add :: "pyfloat \<Rightarrow> pyfloat \<Rightarrow> pyfloat" where
  "fl_add NaN _ = NaN"
| "fl_add _ NaN = NaN"
| "fl_add PInf NInf = NaN"
| "fl_add NInf PInf = NaN"
| "fl_add PInf _ = PInf"
| "fl_add _ PInf = PInf"
| "fl_add NInf _ = NInf"
| "fl_add _ NInf = NInf"
| "fl_add (Fl a) (Fl b) = Fl (a + b)"

fun fl_neg :: "pyfloat \<Rightarrow> pyfloat" where
  "fl_neg (Fl a) = Fl (- a)"
| "fl_neg PInf = NInf"
| "fl_neg NInf = PInf"
| "fl_neg NaN = NaN"

definition fl_sub :: "pyfloat \<Rightarrow> pyfloat \<Rightarrow> pyfloat" where
  "fl_sub a b = fl_add a (fl_neg b)"

fun fl_mul :: "pyfloat \<Rightarrow> pyfloat \<Rightarrow> pyfloat" where
  "fl_mul NaN _ = NaN"
| "fl_mul _ NaN = NaN"
| "fl_mul (Fl a) (Fl b) = Fl (a * b)"
| "fl_mul (Fl a) PInf = (if a = 0 then NaN else if 0 < a then PInf else NInf)"
| "fl_mul (Fl a) NInf = (if a = 0 then NaN else if 0 < a then NInf else PInf)"
| "fl_mul PInf (Fl b) = (if b = 0 then NaN else if 0 < b then PInf else NInf)"
| "fl_mul NInf (Fl b) = (if b = 0 then NaN else if 0 < b then NInf else PInf)"
| "fl_mul PInf PInf = PInf"
| "fl_mul PInf NInf = NInf"
| "fl_mul NInf PInf = NInf"
| "fl_mul NInf NInf = PInf"

text \<open>numpy's \<^verbatim>\<open>1. / x\<close>: a zero divisor gives \<open>inf\<close> (and a warning), not an exception.\<close>

fun fl_recip :: "pyfloat \<Rightarrow> pyfloat" where
  "fl_recip (Fl a) = (if a = 0 then PInf else Fl (1 / a))"
| "fl_recip PInf = Fl 0"
| "fl_recip NInf = Fl 0"
| "fl_recip NaN = NaN"

fun fl_abs :: "pyfloat \<Rightarrow> pyfloat" where
  "fl_abs (Fl a) = Fl \<bar>a\<bar>"
| "fl_abs PInf = PInf"
| "fl_abs NInf = PInf"
| "fl_abs NaN = NaN"

fun fl_lt :: "pyfloat \<Rightarrow> pyfloat \<Rightarrow> bool" where
  "fl_lt NaN _ = False"
| "fl_lt _ NaN = False"
| "fl_lt (Fl a) (Fl b) = (a < b)"
| "fl_lt (Fl a) PInf = True"
| "fl_lt (Fl a) NInf = False"
| "fl_lt PInf _ = False"
| "fl_lt NInf NInf = False"
| "fl_lt NInf _ = True"

fun fl_le :: "pyfloat \<Rightarrow> pyfloat \<Rightarrow> bool" where
  "fl_le NaN _ = False"
| "fl_le _ NaN = False"
| "fl_le (Fl a) (Fl b) = (a \<le> b)"
| "fl_le (Fl a) PInf = True"
| "fl_le (Fl a) NInf = False"
| "fl_le PInf PInf = True"
| "fl_le PInf _ = False"
| "fl_le NInf _ = True"

fun fl_isinf :: "pyfloat \<Rightarrow> bool" where
  "fl_isinf PInf = True"
| "fl_isinf NInf = True"
| "fl_isinf _ = False"

fun fl_isfinite :: "pyfloat \<Rightarrow> bool" where
  "fl_isfinite (Fl a) = True"
| "fl_isfinite _ = False"

text \<open>Python's \<^verbatim>\<open>sum\<close> of a sequence of floats, starting from zero.\<close>

definition fl_sum :: "pyfloat list \<Rightarrow> pyfloat" where
  "fl_sum xs = foldl fl_add (Fl 0) xs"

text \<open>
  Truthiness of an optional float argument, as \<^verbatim>\<open>bool(x)\<close> and \<^verbatim>\<open>if x:\<close> see it:
  \<^verbatim>\<open>None\<close> and zero are false, every other float (NaN too) is true.
\<close>

fun py_bool :: "pyfloat option \<Rightarrow> bool" where
  "py_bool None = False"
| "py_bool (Some (Fl a)) = (a \<noteq> 0)"
| "py_bool (Some _) = True"

subsection \<open>Exceptions\<close>

datatype error =
    ValueError string
  | Exception string
  | AssertionError
  | RecursionError
  | IndexError
  | KeyError
  | TypeError
  | UnboundLocalError

subsection \<open>The gate set and the linear algebra around it\<close>

text \<open>
  A gate string is the list of its gate labels; only its length and its place in the
  fiducial list matter here. Vectors are lists of reals and a matrix is the list of its
  rows. The matrices built by \<^verbatim>\<open>make_prep_mxs\<close> and \<^verbatim>\<open>make_meas_mxs\<close> are
  only ever filled, sliced and joined by columns, so those are kept as the list of their
  columns.

  The record stands for a \<^verbatim>\<open>GateSet\<close> object: \<open>get_dimension\<close> is its dimension
  \<open>d\<close>, \<open>preps\<close> and \<open>effects\<close> are the values of the two ordered dictionaries (column
  vectors of length \<open>d\<close>), \<open>gates\<close> the gate labels and \<open>product\<close> the \<open>d \<times> d\<close> matrix of
  a gate string. The class keeps these shapes consistent; the model relies on that and does
  not model numpy's shape errors.
\<close>

type_synonym gatestring = "string list"
type_synonym vec = "real list"
type_synonym mx = "real list list"

record gateset =
  get_dimension :: nat
  preps :: "vec list"
  effects :: "vec list"
  gates :: "string list"
  product :: "gatestring \<Rightarrow> mx"

text \<open>\<^verbatim>\<open>_np.dot(M, rho).T[0]\<close> for a column vector \<open>rho\<close>.\<close>

definition dot_mx_vec :: "mx \<Rightarrow> vec \<Rightarrow> vec" where
  "dot_mx_vec M rho = map (\<lambda>row. sum_list (map2 (*) row rho)) M"

text \<open>\<^verbatim>\<open>_np.dot(E.T, M)[0]\<close> for a column vector \<open>E\<close>: entry \<open>j\<close> is \<open>\<Sum>i. E[i] * M[i][j]\<close>.\<close>

definition dot_vecT_mx :: "nat \<Rightarrow> vec \<Rightarrow> mx \<Rightarrow> vec" where
  "dot_vecT_mx d E M = map (\<lambda>j. sum_list (map2 (\<lambda>e row. e * row ! j) E M)) [0..<d]"

definition make_prep_mxs :: "gateset \<Rightarrow> gatestring list \<Rightarrow> mx list" where
  "make_prep_mxs gs prepFidList =
     map (\<lambda>rho. map (\<lambda>prepFid. dot_mx_vec (product gs prepFid) rho) prepFidList) (preps gs)"

definition make_meas_mxs :: "gateset \<Rightarrow> gatestring list \<Rightarrow> mx list" where
  "make_meas_mxs gs prepMeasList =
     map (\<lambda>E. map (\<lambda>measFid. dot_vecT_mx (get_dimension gs) E (product gs measFid)) prepMeasList)
       (effects gs)"

text \<open>
  \<^verbatim>\<open>_np.dot(scoreMx, scoreMx.T)\<close> for the \<open>d\<close>-row matrix whose columns are \<open>cols\<close>:
  entry \<open>(i, j)\<close> is the sum over the columns \<open>c\<close> of \<open>c[i] * c[j]\<close>.
\<close>

definition gram :: "nat \<Rightarrow> vec list \<Rightarrow> mx" where
  "gram d cols = map (\<lambda>i. map (\<lambda>j. sum_list (map (\<lambda>c. c ! i * c ! j) cols)) [0..<d]) [0..<d]"

text \<open>
  \<^verbatim>\<open>_np.linalg.eigvalsh\<close> belongs to numpy, not to this repository: every function
  that needs it takes it as its first argument \<open>eigvalsh\<close>, and the theorems hold for
  any such function. For a \<open>1 \<times> 1\<close> matrix the spectrum is its single entry; the concrete
  examples use gate sets of dimension one with \<open>eigvalsh_1x1\<close>.
\<close>

type_synonym eigvalsh_fn = "mx \<Rightarrow> real list"

definition eigvalsh_1x1 :: eigvalsh_fn where
  "eigvalsh_1x1 M = (case M of [[a]] \<Rightarrow> [a] | _ \<Rightarrow> [])"

subsection \<open>Scores\<close>

datatype score_func = Score_all | Score_worst

text \<open>
  Modelled from the spec: \<^verbatim>\<open>_scoring.list_score\<close> is in \<^verbatim>\<open>algorithms/scoring.py\<close>,
  which is not among the sources. The spec (4.2) gives it as: ``\<open>all\<close> = sum of reciprocals
  of all eigenvalues (an eigenvalue of 0 contributes \<open>+\<infinity>\<close>); \<open>worst\<close> = reciprocal of
  the smallest eigenvalue''. The spectrum of a matrix of positive dimension is not empty;
  the spec does not say what \<open>worst\<close> is on an empty one, and neither does the model.
\<close>

definition list_score :: "real list \<Rightarrow> score_func \<Rightarrow> pyfloat" where
  "list_score input_array scoreFunc =
     (case scoreFunc of
        Score_all \<Rightarrow> fl_sum (map (\<lambda>x. fl_recip (Fl x)) input_array)
      | Score_worst \<Rightarrow> fl_recip (Fl (Min (set input_array))))"

definition default_threshold :: pyfloat where
  "default_threshold = Fl 1000000"

text \<open>
  \<^verbatim>\<open>test_fiducial_list\<close> with \<^verbatim>\<open>returnAll=True\<close>: the triple of the test result,
  the spectrum and the score. \<open>test_fiducial_list\<close> below is the call with
  \<^verbatim>\<open>returnAll=False\<close>.
\<close>

definition invalid_prepOrMeas :: string where
  "invalid_prepOrMeas = ''Invalid value for prepOrMeas (must be prep or meas)!''"

definition test_fiducial_list_all ::
  "eigvalsh_fn \<Rightarrow> gateset \<Rightarrow> gatestring list \<Rightarrow> string option \<Rightarrow> score_func \<Rightarrow> pyfloat
     \<Rightarrow> error + (bool \<times> real list \<times> pyfloat)" where
  "test_fiducial_list_all eigvalsh gs fidList prepOrMeas scoreFunc threshold =
     (let dimRho = get_dimension gs in
      if prepOrMeas \<noteq> Some ''prep'' \<and> prepOrMeas \<noteq> Some ''meas''
      then Inl (ValueError invalid_prepOrMeas)
      else
        let fidArrayList = (if prepOrMeas = Some ''prep'' then make_prep_mxs gs fidList
                            else make_meas_mxs gs fidList);
            numFids = length fidList;
            scoreMx = concat fidArrayList;
            scoreSqMx = gram dimRho scoreMx;
            spectrum = eigvalsh scoreSqMx;
            score = fl_mul (Fl (real numFids)) (list_score (map abs spectrum) scoreFunc);
            testResult = (if (fl_le score (Fl 0) \<or> fl_isinf score) \<or> fl_lt threshold score
                          then False else True)
        in Inr (testResult, spectrum, score))"

definition test_fiducial_list ::
  "eigvalsh_fn \<Rightarrow> gateset \<Rightarrow> gatestring list \<Rightarrow> string option \<Rightarrow> score_func \<Rightarrow> pyfloat
     \<Rightarrow> error + bool" where
  "test_fiducial_list eigvalsh gs fidList prepOrMeas scoreFunc threshold =
     map_sum id fst (test_fiducial_list_all eigvalsh gs fidList prepOrMeas scoreFunc threshold)"

subsection \<open>Weight vectors\<close>

text \<open>
  A weight vector holds only zeros and ones (\<^verbatim>\<open>initialWeights\<close> is coerced to them, the
  rows of \<^verbatim>\<open>bitVecMx\<close> are built from them): it is a list of booleans, \<open>True\<close> for one.
  A weight vector has one entry per fiducial; \<^verbatim>\<open>initialWeights\<close> of another length,
  on which numpy fails at one index or another, is outside the model.
\<close>

text \<open>\<^verbatim>\<open>_np.count_nonzero(wts)\<close>, \<^verbatim>\<open>_np.sum(wts)\<close> and \<^verbatim>\<open>sum(wts)\<close>.\<close>

definition count_nonzero :: "bool list \<Rightarrow> nat" where
  "count_nonzero wts = length (filter id wts)"

text \<open>
  The entries of \<open>xs\<close> at the places where \<open>wts\<close> is one: \<^verbatim>\<open>fidArray[:,wtsLoc]\<close> on
  the columns of a matrix, and the loops \<^verbatim>\<open>for index, val in enumerate(weights)\<close> that
  collect \<^verbatim>\<open>fidList[index]\<close>.
\<close>

definition select_cols :: "bool list \<Rightarrow> 'a list \<Rightarrow> 'a list" where
  "select_cols wts xs = map snd (filter fst (zip wts xs))"

subsection \<open>The enumeration of fixed-weight bit vectors\<close>

text \<open>
  \<^verbatim>\<open>int(scipy.special.binom(n, k))\<close> on integers, exact: the binomial coefficient for
  \<open>0 \<le> k \<le> n\<close>, zero for the other \<open>k\<close>, and no value for a negative \<open>n\<close> (scipy
  returns NaN there and \<^verbatim>\<open>int\<close> raises).
\<close>

definition binom :: "int \<Rightarrow> int \<Rightarrow> nat option" where
  "binom n k = (if n < 0 then None
                else if 0 \<le> k \<and> k \<le> n then Some (nat n choose nat k) else Some 0)"

text \<open>A \<^verbatim>\<open>for\<close> loop whose body may raise: the first exception ends the loop.\<close>

fun for_loop :: "'a list \<Rightarrow> ('a \<Rightarrow> 's \<Rightarrow> error + 's) \<Rightarrow> 's \<Rightarrow> error + 's" where
  "for_loop [] body s = Inr s"
| "for_loop (x # xs) body s =
     (case body x s of Inl e \<Rightarrow> Inl e | Inr s' \<Rightarrow> for_loop xs body s')"

text \<open>
  \<^verbatim>\<open>bitVecMx[counter][[previous_bit_locs]] = 1\<close>: row \<open>counter\<close> gets a one at every
  listed place. A row or a place that does not exist is an IndexError (the places are never
  negative here).
\<close>

definition set_bits :: "bool list list \<Rightarrow> nat \<Rightarrow> int list \<Rightarrow> error + bool list list" where
  "set_bits bitVecMx counter locs =
     (if counter < length bitVecMx
         \<and> list_all (\<lambda>p. 0 \<le> p \<and> p < int (length (bitVecMx ! counter))) locs
      then Inr (bitVecMx[counter := fold (\<lambda>p row. row[nat p := True]) locs (bitVecMx ! counter)])
      else Inl IndexError)"

text \<open>
  The inner function \<^verbatim>\<open>build_mx\<close>. It closes over \<open>k\<close>, \<open>diff\<close> and the array
  \<^verbatim>\<open>bitVecMx\<close>, which it fills in place; here the array travels with the counter. The
  first argument bounds the depth of the recursion, as the interpreter's recursion limit
  does: at depth zero the call raises RecursionError.
\<close>

primrec build_mx ::
  "nat \<Rightarrow> int \<Rightarrow> int \<Rightarrow> int list \<Rightarrow> int \<Rightarrow> bool list list \<times> nat
     \<Rightarrow> error + bool list list \<times> nat" where
  "build_mx 0 k diff previous_bit_locs i st = Inl RecursionError"
| "build_mx (Suc depth) k diff previous_bit_locs i st =
     (if i = 0 then
        (case set_bits (fst st) (snd st) previous_bit_locs of
           Inl e \<Rightarrow> Inl e
         | Inr bitVecMx \<Rightarrow> Inr (bitVecMx, snd st + 1))
      else
        let subK = k - i;
            last_bit_loc = last previous_bit_locs
        in for_loop [1 + last_bit_loc .. diff + subK]
             (\<lambda>bit_loc st'. build_mx depth k diff (previous_bit_locs @ [bit_loc]) (i - 1) st') st)"

definition build_bitvec_mx :: "nat \<Rightarrow> int \<Rightarrow> int \<Rightarrow> error + bool list list" where
  "build_bitvec_mx depth n k =
     (case binom n k of
        None \<Rightarrow> Inl (ValueError ''cannot convert float NaN to integer'')
      | Some rows \<Rightarrow>
          let bitVecMx = replicate rows (replicate (nat n) False);
              diff = n - k
          in map_sum id fst
               (for_loop [0 .. diff]
                  (\<lambda>bit_loc_0 st. build_mx depth k diff [bit_loc_0] (k - 1) st) (bitVecMx, 0)))"

subsection \<open>The arguments of the optimizer\<close>

text \<open>
  The keyword arguments of \<^verbatim>\<open>optimize_integer_fiducials_slack\<close>, with the defaults of
  its signature in \<open>default_args\<close>. \<open>maxIter\<close> is a natural number (\<^verbatim>\<open>range\<close> of a
  negative number is as empty as \<^verbatim>\<open>range(0)\<close>).
\<close>

record opt_args =
  fidList :: "gatestring list"
  prepOrMeas :: "string option"
  initialWeights :: "bool list option"
  scoreFunc :: score_func
  maxIter :: nat
  fixedSlack :: "pyfloat option"
  slackFrac :: "pyfloat option"
  returnAll :: bool
  forceEmpty :: bool
  forceEmptyScore :: pyfloat
  fixedNum :: "int option"
  threshold :: pyfloat
  verbosity :: int

definition default_args :: "gatestring list \<Rightarrow> opt_args" where
  "default_args fl =
     \<lparr>fidList = fl, prepOrMeas = None, initialWeights = None, scoreFunc = Score_all, maxIter = 100,
      fixedSlack = None, slackFrac = None, returnAll = False, forceEmpty = True,
      forceEmptyScore = Fl (10 ^ 100), fixedNum = None, threshold = default_threshold,
      verbosity = 1\<rparr>"

text \<open>\<^verbatim>\<open>xor(*args)\<close>: exactly one argument is true as \<^verbatim>\<open>bool\<close> sees it.\<close>

definition xor :: "pyfloat option list \<Rightarrow> bool" where
  "xor args = (length (filter py_bool args) = 1)"

subsection \<open>Scoring a weight vector\<close>

type_synonym cache = "bool list \<rightharpoonup> pyfloat"

text \<open>
  The inner function \<^verbatim>\<open>compute_score\<close>. It closes over \<^verbatim>\<open>dimRho\<close>,
  \<^verbatim>\<open>fidArrayList\<close> and the arguments of the optimizer. \<open>compute_score\<close> is the score it
  returns; \<open>compute_score_cached\<close> is the call with \<^verbatim>\<open>cache_score=True\<close> (the only
  calls there are), which also stores the score in \<^verbatim>\<open>scoreD\<close>.
\<close>

definition compute_score ::
  "eigvalsh_fn \<Rightarrow> nat \<Rightarrow> mx list \<Rightarrow> opt_args \<Rightarrow> bool list \<Rightarrow> pyfloat" where
  "compute_score eigvalsh dimRho fidArrayList a wts =
     (if forceEmpty a \<and> count_nonzero (take 1 wts) \<noteq> 1 then forceEmptyScore a
      else
        let numFids = count_nonzero wts;
            scoreMx = concat (map (select_cols wts) fidArrayList);
            scoreSqMx = gram dimRho scoreMx;
            score = fl_mul (Fl (real numFids)) (list_score (eigvalsh scoreSqMx) (scoreFunc a))
        in if fl_le score (Fl 0) \<or> fl_isinf score then Fl 10000000000 else score)"

definition compute_score_cached ::
  "(bool list \<Rightarrow> pyfloat) \<Rightarrow> bool list \<Rightarrow> cache \<Rightarrow> pyfloat \<times> cache" where
  "compute_score_cached cs wts scoreD = (cs wts, scoreD(wts \<mapsto> cs wts))"

subsection \<open>The local search\<close>

text \<open>
  The calls of \<^verbatim>\<open>printer.log\<close> in the two searches are recorded as events, whatever
  the verbosity; the printer's other messages and its progress bar are left out.
\<close>

datatype event =
    Found_better_neighbor
  | No_better_neighbor
  | Stationary_point_found
  | Moving_to_better_neighbor
  | Hit_max_iterations
  | Switching

record search_state =
  weights :: "bool list"
  score :: pyfloat
  L1 :: nat
  lessWeightOnly :: bool
  scoreD :: cache
  bFoundBetterNeighbor :: bool
  log :: "event list"

text \<open>
  \<^verbatim>\<open>get_neighbors(boolVec)\<close>: the vectors with exactly one of the first \<^verbatim>\<open>nFids\<close>
  entries toggled, in the order of the index. The generator keeps the vector it was called
  with, so a move made during a scan does not change the neighbours still to come.
\<close>

definition get_neighbors :: "nat \<Rightarrow> bool list \<Rightarrow> bool list list" where
  "get_neighbors nFids boolVec = map (\<lambda>i. boolVec[i := \<not> boolVec ! i]) [0..<nFids]"

text \<open>
  The body of the first \<^verbatim>\<open>for neighbor in get_neighbors(weights)\<close> loop. The score of the
  neighbour is read from \<^verbatim>\<open>scoreD\<close> when its key is there and computed (and stored)
  otherwise.
\<close>

definition scan_step :: "(bool list \<Rightarrow> pyfloat) \<Rightarrow> search_state \<Rightarrow> bool list \<Rightarrow> search_state" where
  "scan_step cs st neighbor =
     (let neighborL1 = count_nonzero neighbor;
          (neighborScore, D) =
             (case scoreD st neighbor of
                None \<Rightarrow> compute_score_cached cs neighbor (scoreD st)
              | Some v \<Rightarrow> (v, scoreD st))
      in if fl_le neighborScore (score st) \<and> (neighborL1 < L1 st \<or> lessWeightOnly st = False)
         then st\<lparr>weights := neighbor, score := neighborScore, L1 := neighborL1, scoreD := D,
                 bFoundBetterNeighbor := True, log := log st @ [Found_better_neighbor]\<rparr>
         else st\<lparr>scoreD := D\<rparr>)"

text \<open>
  The slack of the relaxation: \<^verbatim>\<open>if fixedSlack: slack = score + fixedSlack\<close>,
  \<^verbatim>\<open>elif slackFrac: slack = score * slackFrac\<close>, then \<^verbatim>\<open>assert(slack > 0)\<close>.
\<close>

definition slack_of :: "pyfloat option \<Rightarrow> pyfloat option \<Rightarrow> pyfloat \<Rightarrow> error + pyfloat" where
  "slack_of fixedSlack_arg slackFrac_arg sc =
     (case (if py_bool fixedSlack_arg then map_option (fl_add sc) fixedSlack_arg
            else if py_bool slackFrac_arg then map_option (fl_mul sc) slackFrac_arg
            else None) of
        None \<Rightarrow> Inl UnboundLocalError
      | Some slack \<Rightarrow> if fl_lt (Fl 0) slack then Inr slack else Inl AssertionError)"

text \<open>The relaxed score: \<^verbatim>\<open>score += slack\<close>.\<close>

definition relaxed_score :: "pyfloat option \<Rightarrow> pyfloat option \<Rightarrow> pyfloat \<Rightarrow> error + pyfloat" where
  "relaxed_score fixedSlack_arg slackFrac_arg sc =
     map_sum id (fl_add sc) (slack_of fixedSlack_arg slackFrac_arg sc)"

text \<open>
  The body of the second loop over the neighbours, after the relaxation. It reads
  \<^verbatim>\<open>scoreD[tuple(neighbor)]\<close> without computing anything: a missing key is a KeyError.
\<close>

definition relax_step :: "bool list \<Rightarrow> search_state \<Rightarrow> error + search_state" where
  "relax_step neighbor st =
     (if count_nonzero neighbor < L1 st then
        (case scoreD st neighbor of
           None \<Rightarrow> Inl KeyError
         | Some v \<Rightarrow>
             if fl_lt v (score st)
             then Inr (st\<lparr>weights := neighbor, score := v, L1 := count_nonzero neighbor,
                          bFoundBetterNeighbor := True,
                          log := log st @ [Found_better_neighbor]\<rparr>)
             else Inr st)
      else Inr st)"

text \<open>
  One pass of the body of \<^verbatim>\<open>for iIter in range(maxIter)\<close>. The boolean of the result
  says whether the pass ended in \<^verbatim>\<open>break\<close>.
\<close>

definition iteration ::
  "(bool list \<Rightarrow> pyfloat) \<Rightarrow> nat \<Rightarrow> pyfloat option \<Rightarrow> pyfloat option \<Rightarrow> search_state
     \<Rightarrow> error + bool \<times> search_state" where
  "iteration cs nFids fixedSlack_arg slackFrac_arg st0 =
     (let st1 = foldl (scan_step cs) (st0\<lparr>bFoundBetterNeighbor := False\<rparr>)
                  (get_neighbors nFids (weights st0))
      in if \<not> bFoundBetterNeighbor st1 then
           (case relaxed_score fixedSlack_arg slackFrac_arg (score st1) of
              Inl e \<Rightarrow> Inl e
            | Inr sc \<Rightarrow>
                let st2 = st1\<lparr>lessWeightOnly := True, score := sc,
                              log := log st1 @ [No_better_neighbor]\<rparr>
                in (case for_loop (get_neighbors nFids (weights st2)) relax_step st2 of
                      Inl e \<Rightarrow> Inl e
                    | Inr st3 \<Rightarrow>
                        if \<not> bFoundBetterNeighbor st3
                        then Inr (True, st3\<lparr>log := log st3 @ [Stationary_point_found]\<rparr>)
                        else Inr (False, st3\<lparr>log := log st3 @ [Moving_to_better_neighbor]\<rparr>)))
         else Inr (False, st1\<lparr>log := log st1 @ [Moving_to_better_neighbor]\<rparr>))"

text \<open>The loop itself, with its \<^verbatim>\<open>else\<close> branch when \<^verbatim>\<open>maxIter\<close> passes are done.\<close>

fun main_loop ::
  "(bool list \<Rightarrow> pyfloat) \<Rightarrow> nat \<Rightarrow> pyfloat option \<Rightarrow> pyfloat option \<Rightarrow> nat \<Rightarrow> search_state
     \<Rightarrow> error + search_state" where
  "main_loop cs nFids fixedSlack_arg slackFrac_arg 0 st =
     Inr (st\<lparr>log := log st @ [Hit_max_iterations]\<rparr>)"
| "main_loop cs nFids fixedSlack_arg slackFrac_arg (Suc n) st =
     (case iteration cs nFids fixedSlack_arg slackFrac_arg st of
        Inl e \<Rightarrow> Inl e
      | Inr (stop, st') \<Rightarrow>
          if stop then Inr st' else main_loop cs nFids fixedSlack_arg slackFrac_arg n st')"

text \<open>
  The state before the loop: the given initial weights, or all ones, in which case the
  search may only lose weight from the start; the first score is computed and stored.
\<close>

definition initial_state ::
  "(bool list \<Rightarrow> pyfloat) \<Rightarrow> nat \<Rightarrow> bool list option \<Rightarrow> search_state" where
  "initial_state cs nFids initialWeights_arg =
     (let w = (case initialWeights_arg of Some iw \<Rightarrow> iw | None \<Rightarrow> replicate nFids True);
          sc_D = compute_score_cached cs w Map.empty
      in \<lparr>weights = w, score = fst sc_D, L1 = count_nonzero w,
          lessWeightOnly = (initialWeights_arg = None), scoreD = snd sc_D,
          bFoundBetterNeighbor = False, log = []\<rparr>)"

definition local_search ::
  "(bool list \<Rightarrow> pyfloat) \<Rightarrow> nat \<Rightarrow> pyfloat option \<Rightarrow> pyfloat option \<Rightarrow> nat \<Rightarrow> bool list option
     \<Rightarrow> error + search_state" where
  "local_search cs nFids fixedSlack_arg slackFrac_arg maxIter_arg initialWeights_arg =
     main_loop cs nFids fixedSlack_arg slackFrac_arg maxIter_arg
       (initial_state cs nFids initialWeights_arg)"

subsection \<open>The search over the subsets of a fixed size\<close>

record best_state =
  best_score :: pyfloat
  best_weights :: "bool list"
  best_scoreD :: cache
  best_log :: "event list"

definition total_length :: "gatestring list \<Rightarrow> nat" where
  "total_length fl = sum_list (map length fl)"

text \<open>The test for a tie: \<^verbatim>\<open>abs(temp_score - best_score) < 1e-8\<close>.\<close>

definition near_tie :: "pyfloat \<Rightarrow> pyfloat \<Rightarrow> bool" where
  "near_tie x y = fl_lt (fl_abs (fl_sub x y)) (Fl (1 / 100000000))"

text \<open>The body of \<^verbatim>\<open>for weights in bitVecMat\<close>.\<close>

definition fixed_num_step ::
  "(bool list \<Rightarrow> pyfloat) \<Rightarrow> gatestring list \<Rightarrow> best_state \<Rightarrow> bool list \<Rightarrow> best_state" where
  "fixed_num_step cs fl st wts =
     (let (temp_score, D) = compute_score_cached cs wts (best_scoreD st);
          st' = st\<lparr>best_scoreD := D\<rparr>
      in if near_tie temp_score (best_score st) then
           (let bestFidList = select_cols (best_weights st) fl;
                tempFidList = select_cols wts fl;
                tempLen = total_length tempFidList;
                bestLen = total_length bestFidList
            in if tempLen < bestLen
               then st'\<lparr>best_score := temp_score, best_weights := wts,
                        best_log := best_log st @ [Switching]\<rparr>
               else st')
         else if fl_lt temp_score (best_score st)
         then st'\<lparr>best_score := temp_score, best_weights := wts\<rparr>
         else st')"

datatype opt_return =
    ReturnNone
  | ReturnList "gatestring list"
  | ReturnAll "gatestring list" "bool list" cache

text \<open>The branch \<^verbatim>\<open>if not (fixedNum is None)\<close>, up to its \<^verbatim>\<open>return\<close>.\<close>

definition fixed_num_search ::
  "(bool list \<Rightarrow> pyfloat) \<Rightarrow> nat \<Rightarrow> opt_args \<Rightarrow> int \<Rightarrow> error + opt_return" where
  "fixed_num_search cs depth a fixedNum_arg =
     (let hammingWeight = (if forceEmpty a then fixedNum_arg - 1 else fixedNum_arg);
          numBits = (if forceEmpty a then int (length (fidList a)) - 1
                     else int (length (fidList a)))
      in case build_bitvec_mx depth numBits hammingWeight of
           Inl e \<Rightarrow> Inl e
         | Inr bitVecMat0 \<Rightarrow>
             let bitVecMat = (if forceEmpty a then map ((#) True) bitVecMat0 else bitVecMat0);
                 st = foldl (fixed_num_step cs (fidList a))
                        \<lparr>best_score = PInf, best_weights = [], best_scoreD = Map.empty,
                         best_log = []\<rparr> bitVecMat;
                 goodFidList = select_cols (best_weights st) (fidList a)
             in Inr (if returnAll a then ReturnAll goodFidList (best_weights st) (best_scoreD st)
                     else ReturnList goodFidList))"

subsection \<open>The optimizer\<close>

definition slack_message :: string where
  "slack_message = ''One and only one of fixedSlack or slackFrac should be specified''"

text \<open>
  \<^verbatim>\<open>optimize_integer_fiducials_slack\<close>. The result is the list of the lines printed
  and either the exception raised or the value returned. \<open>depth\<close> is the recursion limit
  left to \<^verbatim>\<open>build_bitvec_mx\<close>.
\<close>

definition optimize_integer_fiducials_slack ::
  "eigvalsh_fn \<Rightarrow> nat \<Rightarrow> gateset \<Rightarrow> opt_args \<Rightarrow> string list \<times> (error + opt_return)" where
  "optimize_integer_fiducials_slack eigvalsh depth gs a =
     (if \<not> xor [fixedSlack a, slackFrac a] then ([], Inl (ValueError slack_message))
      else
        case test_fiducial_list_all eigvalsh gs (fidList a) (prepOrMeas a) (scoreFunc a)
               (threshold a) of
          Inl e \<Rightarrow> ([], Inl e)
        | Inr initial_test \<Rightarrow>
            if \<not> fst initial_test
            then ([''Complete initial fiducial set FAILS.'', ''Aborting search.''], Inr ReturnNone)
            else
              let out = [''Complete initial fiducial set succeeds.'',
                         ''Now searching for best fiducial set.''];
                  nFids = length (fidList a);
                  dimRho = get_dimension gs
              in if prepOrMeas a \<noteq> Some ''prep'' \<and> prepOrMeas a \<noteq> Some ''meas''
                 then (out, Inl (Exception ''prepOrMeas must be specified!''))
                 else
                   let fidArrayList = (if prepOrMeas a = Some ''prep''
                                       then make_prep_mxs gs (fidList a)
                                       else make_meas_mxs gs (fidList a));
                       cs = compute_score eigvalsh dimRho fidArrayList a
                   in (case fixedNum a of
                         Some fixedNum_arg \<Rightarrow> (out, fixed_num_search cs depth a fixedNum_arg)
                       | None \<Rightarrow>
                           (case local_search cs nFids (fixedSlack a) (slackFrac a) (maxIter a)
                                   (initialWeights a) of
                              Inl e \<Rightarrow> (out, Inl e)
                            | Inr st \<Rightarrow>
                                let goodFidList = select_cols (weights st) (fidList a)
                                in (out @ [if fst initial_test
                                           then ''Final fiducial set succeeds.''
                                           else ''WARNING: Final fiducial set FAILS.''],
                                    Inr (if returnAll a
                                         then ReturnAll goodFidList (weights st) (scoreD st)
                                         else ReturnList goodFidList)))))"

subsection \<open>Generating both fiducial lists\<close>

text \<open>
  A keyword dictionary maps argument names to Python values. It is an association list in
  the order of insertion: \<^verbatim>\<open>key in d\<close> is \<open>map_of d key \<noteq> None\<close>, \<^verbatim>\<open>d[key] = v\<close>
  is \<open>AList.update key v d\<close> and \<^verbatim>\<open>d.copy()\<close> is \<open>d\<close> itself, a value.
\<close>

datatype pyval =
    PyNone
  | PyBool bool
  | PyInt int
  | PyFloat pyfloat
  | PyStr string
  | PyFidList "gatestring list"
  | PyWeights "bool list"

type_synonym kwargs = "(string \<times> pyval) list"

text \<open>
  Binding one keyword argument of \<^verbatim>\<open>optimize_integer_fiducials_slack\<close>. A name that
  is not a parameter is Python's TypeError, and so is \<^verbatim>\<open>gateset\<close>, which
  \<^verbatim>\<open>generate_fiducials\<close> passes itself. A value of another type than the docstring
  gives for the parameter is outside the model and is a TypeError here too.
\<close>

fun bind_kwarg :: "string \<times> pyval \<Rightarrow> opt_args \<Rightarrow> error + opt_args" where
  "bind_kwarg (key, v) a =
     (if key = ''fidList'' then
        (case v of PyFidList l \<Rightarrow> Inr (a\<lparr>fidList := l\<rparr>) | _ \<Rightarrow> Inl TypeError)
      else if key = ''prepOrMeas'' then
        (case v of PyStr m \<Rightarrow> Inr (a\<lparr>prepOrMeas := Some m\<rparr>)
                 | PyNone \<Rightarrow> Inr (a\<lparr>prepOrMeas := None\<rparr>) | _ \<Rightarrow> Inl TypeError)
      else if key = ''initialWeights'' then
        (case v of PyWeights w \<Rightarrow> Inr (a\<lparr>initialWeights := Some w\<rparr>)
                 | PyNone \<Rightarrow> Inr (a\<lparr>initialWeights := None\<rparr>) | _ \<Rightarrow> Inl TypeError)
      else if key = ''scoreFunc'' then
        (if v = PyStr ''all'' then Inr (a\<lparr>scoreFunc := Score_all\<rparr>)
         else if v = PyStr ''worst'' then Inr (a\<lparr>scoreFunc := Score_worst\<rparr>)
         else Inl TypeError)
      else if key = ''maxIter'' then
        (case v of PyInt n \<Rightarrow> Inr (a\<lparr>maxIter := nat n\<rparr>) | _ \<Rightarrow> Inl TypeError)
      else if key = ''fixedSlack'' then
        (case v of PyFloat f \<Rightarrow> Inr (a\<lparr>fixedSlack := Some f\<rparr>)
                 | PyNone \<Rightarrow> Inr (a\<lparr>fixedSlack := None\<rparr>) | _ \<Rightarrow> Inl TypeError)
      else if key = ''slackFrac'' then
        (case v of PyFloat f \<Rightarrow> Inr (a\<lparr>slackFrac := Some f\<rparr>)
                 | PyNone \<Rightarrow> Inr (a\<lparr>slackFrac := None\<rparr>) | _ \<Rightarrow> Inl TypeError)
      else if key = ''returnAll'' then
        (case v of PyBool b \<Rightarrow> Inr (a\<lparr>returnAll := b\<rparr>) | _ \<Rightarrow> Inl TypeError)
      else if key = ''forceEmpty'' then
        (case v of PyBool b \<Rightarrow> Inr (a\<lparr>forceEmpty := b\<rparr>) | _ \<Rightarrow> Inl TypeError)
      else if key = ''forceEmptyScore'' then
        (case v of PyFloat f \<Rightarrow> Inr (a\<lparr>forceEmptyScore := f\<rparr>) | _ \<Rightarrow> Inl TypeError)
      else if key = ''fixedNum'' then
        (case v of PyInt n \<Rightarrow> Inr (a\<lparr>fixedNum := Some n\<rparr>)
                 | PyNone \<Rightarrow> Inr (a\<lparr>fixedNum := None\<rparr>) | _ \<Rightarrow> Inl TypeError)
      else if key = ''threshold'' then
        (case v of PyFloat f \<Rightarrow> Inr (a\<lparr>threshold := f\<rparr>) | _ \<Rightarrow> Inl TypeError)
      else if key = ''verbosity'' then
        (case v of PyInt n \<Rightarrow> Inr (a\<lparr>verbosity := n\<rparr>) | _ \<Rightarrow> Inl TypeError)
      else Inl TypeError)"

text \<open>
  The call \<^verbatim>\<open>optimize_integer_fiducials_slack(gateset=gs_target, **kwargs)\<close>: the
  parameters not named keep their defaults; \<^verbatim>\<open>fidList\<close> has none and must be there.
\<close>

definition call_with_kwargs ::
  "eigvalsh_fn \<Rightarrow> nat \<Rightarrow> gateset \<Rightarrow> kwargs \<Rightarrow> string list \<times> (error + opt_return)" where
  "call_with_kwargs eigvalsh depth gs kw =
     (if map_of kw ''fidList'' = None then ([], Inl TypeError)
      else case for_loop kw bind_kwarg (default_args []) of
             Inl e \<Rightarrow> ([], Inl e)
           | Inr a \<Rightarrow> optimize_integer_fiducials_slack eigvalsh depth gs a)"

text \<open>
  The part of \<^verbatim>\<open>generate_fiducials\<close> that writes into \<^verbatim>\<open>algorithm_kwargs\<close>:
  \<^verbatim>\<open>slackFrac\<close> becomes \<open>1.0\<close> when neither slack is a key, and each key of
  \<^verbatim>\<open>default_kwargs\<close> that is missing gets its default.
\<close>

definition fill_kwargs :: "kwargs \<Rightarrow> gatestring list \<Rightarrow> int \<Rightarrow> kwargs" where
  "fill_kwargs algorithm_kwargs availableFidList verbosity_arg =
     (let default_kwargs = [(''fidList'', PyFidList availableFidList),
                            (''verbosity'', PyInt verbosity_arg)];
          kw1 = (if map_of algorithm_kwargs ''slackFrac'' = None
                    \<and> map_of algorithm_kwargs ''fixedSlack'' = None
                 then AList.update ''slackFrac'' (PyFloat (Fl 1)) algorithm_kwargs
                 else algorithm_kwargs)
      in fold (\<lambda>(key, v) kw. if map_of kw key = None then AList.update key v kw else kw)
           default_kwargs kw1)"

text \<open>
  \<^verbatim>\<open>generate_fiducials\<close>. \<^verbatim>\<open>_constr.list_all_gatestrings\<close> is not among the sources
  and is the argument \<open>list_all_gatestrings\<close>. The function fills in the dictionary it is
  given before it copies it, so the dictionary after the call is part of the result: the
  first component, whether the call returns or raises.
\<close>

definition generate_fiducials ::
  "eigvalsh_fn \<Rightarrow> nat \<Rightarrow> (string list \<Rightarrow> nat \<Rightarrow> nat \<Rightarrow> gatestring list) \<Rightarrow> gateset \<Rightarrow> string list
     \<Rightarrow> nat \<Rightarrow> string \<Rightarrow> kwargs \<Rightarrow> int
     \<Rightarrow> kwargs \<times> string list \<times> (error + opt_return \<times> opt_return)" where
  "generate_fiducials eigvalsh depth list_all_gatestrings gs_target gatesToOmit maxFidLength
     algorithm algorithm_kwargs verbosity_arg =
     (let fidGates = filter (\<lambda>gate. gate \<notin> set gatesToOmit) (gates gs_target);
          availableFidList = list_all_gatestrings fidGates 0 maxFidLength
      in if algorithm = ''slack'' then
           let kw = fill_kwargs algorithm_kwargs availableFidList verbosity_arg;
               prepAlg_kwargs = AList.update ''prepOrMeas'' (PyStr ''prep'') kw;
               measAlg_kwargs = AList.update ''prepOrMeas'' (PyStr ''meas'') kw
           in (kw,
               case call_with_kwargs eigvalsh depth gs_target prepAlg_kwargs of
                 (out1, Inl e) \<Rightarrow> (out1, Inl e)
               | (out1, Inr prepFidList) \<Rightarrow>
                   (case call_with_kwargs eigvalsh depth gs_target measAlg_kwargs of
                      (out2, Inl e) \<Rightarrow> (out1 @ out2, Inl e)
                    | (out2, Inr measFidList) \<Rightarrow>
                        (out1 @ out2, Inr (prepFidList, measFidList))))
         else (algorithm_kwargs, [], Inl (ValueError ''not a valid algorithm identifier'')))"

text \<open>
  The default value of \<^verbatim>\<open>algorithm_kwargs\<close> is one dictionary object, made when the
  function is defined and used by every call that does not pass the argument. The model
  carries it as a state: a call with \<open>None\<close> for the argument runs on the default object
  and leaves it as the function left it; a call with a dictionary of the caller's returns
  that dictionary as it is after the call.
\<close>

definition call_generate_fiducials ::
  "eigvalsh_fn \<Rightarrow> nat \<Rightarrow> (string list \<Rightarrow> nat \<Rightarrow> nat \<Rightarrow> gatestring list) \<Rightarrow> gateset \<Rightarrow> string list
     \<Rightarrow> nat \<Rightarrow> string \<Rightarrow> kwargs option \<Rightarrow> int \<Rightarrow> kwargs
     \<Rightarrow> kwargs \<times> kwargs option \<times> string list \<times> (error + opt_return \<times> opt_return)" where
  "call_generate_fiducials eigvalsh depth list_all_gatestrings gs_target gatesToOmit maxFidLength
     algorithm supplied verbosity_arg default_object =
     (case supplied of
        Some algorithm_kwargs \<Rightarrow>
          (case generate_fiducials eigvalsh depth list_all_gatestrings gs_target gatesToOmit
                  maxFidLength algorithm algorithm_kwargs verbosity_arg of
             (kw, r) \<Rightarrow> (default_object, Some kw, r))
      | None \<Rightarrow>
          (case generate_fiducials eigvalsh depth list_all_gatestrings gs_target gatesToOmit
                  maxFidLength algorithm default_object verbosity_arg of
             (kw, r) \<Rightarrow> (kw, None, r)))"

subsection \<open>Concrete gate sets for the examples\<close>

text \<open>
  A gate set of dimension one with a single gate \<open>Gx\<close> that scales by \<open>g\<close>: the product
  of a gate string of length \<open>n\<close> is the \<open>1 \<times> 1\<close> matrix \<open>g ^ n\<close> (the identity for the
  empty string), and the one preparation and the one effect are the vector \<open>(1)\<close>. The
  column of a fiducial of length \<open>n\<close> is \<open>(g ^ n)\<close>, so the Gram matrix of a set of
  fiducials is the sum of the squares \<open>g ^ (2 * n)\<close>, which is its only eigenvalue.
\<close>

definition gs_scale :: "real \<Rightarrow> gateset" where
  "gs_scale g =
     \<lparr>get_dimension = 1, preps = [[1]], effects = [[1]], gates = [''Gx''],
      product = (\<lambda>s. [[g ^ length s]])\<rparr>"

text \<open>The two candidate fiducials \<open>{}\<close> and \<open>Gx\<close>, preparation mode, every default.\<close>

definition example_args :: opt_args where
  "example_args = (default_args [[], [''Gx'']])\<lparr>prepOrMeas := Some ''prep''\<rparr>"

text \<open>An enumeration of the gate strings by length, to stand for the one of pyGSTi.\<close>

definition all_gatestrings_by_length :: "string list \<Rightarrow> nat \<Rightarrow> nat \<Rightarrow> gatestring list" where
  "all_gatestrings_by_length gts lo hi = concat (map (\<lambda>n. List.n_lists n gts) [lo..<Suc hi])"

text \<open>
  Three candidates for the search over the subsets of a fixed size: the forced empty string
  and one of \<open>Gx\<close>, \<open>Gx Gx\<close>, on \<open>gs_scale 2\<close>.
\<close>

definition fixed_args :: opt_args where
  "fixed_args = (default_args [[], [''Gx''], [''Gx'', ''Gx'']])
                  \<lparr>prepOrMeas := Some ''prep'', slackFrac := Some (Fl 1), fixedNum := Some 2\<rparr>"

definition fixed_cs :: "bool list \<Rightarrow> pyfloat" where
  "fixed_cs = compute_score eigvalsh_1x1 1 (make_prep_mxs (gs_scale 2) (fidList fixed_args)) fixed_args"




text \<open>The scoring function of the optimizer on \<open>example_args\<close> and \<open>gs_scale g\<close>.\<close>

definition example_cs :: "real \<Rightarrow> bool list \<Rightarrow> pyfloat" where
  "example_cs g = compute_score eigvalsh_1x1 1 (make_prep_mxs (gs_scale g) [[], [''Gx'']]) example_args"

subsection \<open>Invariants\<close>

text \<open>
  For the local search. The score dictionary is consistent when it holds only scores that
  \<^verbatim>\<open>compute_score\<close> gives. At the top of each pass of the main loop the score and
  \<open>L1\<close> are those of the current weights.
\<close>

definition cache_ok :: "(bool list \<Rightarrow> pyfloat) \<Rightarrow> cache \<Rightarrow> bool" where
  "cache_ok cs D = (\<forall>k v. D k = Some v \<longrightarrow> v = cs k)"

definition search_inv :: "(bool list \<Rightarrow> pyfloat) \<Rightarrow> nat \<Rightarrow> search_state \<Rightarrow> bool" where
  "search_inv cs n st =
     (cache_ok cs (scoreD st) \<and> score st = cs (weights st)
      \<and> L1 st = count_nonzero (weights st) \<and> length (weights st) = n)"

text \<open>The test of the first scan, for the neighbour \<open>nb\<close>.\<close>

definition accepts :: "(bool list \<Rightarrow> pyfloat) \<Rightarrow> pyfloat \<Rightarrow> nat \<Rightarrow> bool \<Rightarrow> bool list \<Rightarrow> bool" where
  "accepts cs sc l1 lwo nb = (fl_le (cs nb) sc \<and> (count_nonzero nb < l1 \<or> lwo = False))"

text \<open>
  The weights \<open>w\<close> are a stationary point under the flag \<open>lwo\<close> (\<^verbatim>\<open>lessWeightOnly\<close>):
  the first scan accepts no neighbour, the relaxation succeeds, and no neighbour of
  smaller weight scores below the relaxed score.
\<close>

definition stationary ::
  "(bool list \<Rightarrow> pyfloat) \<Rightarrow> nat \<Rightarrow> pyfloat option \<Rightarrow> pyfloat option \<Rightarrow> bool list \<Rightarrow> bool \<Rightarrow> bool" where
  "stationary cs n fS sF w lwo =
     ((\<forall>nb\<in>set (get_neighbors n w). \<not> accepts cs (cs w) (count_nonzero w) lwo nb)
      \<and> (\<exists>sc. relaxed_score fS sF (cs w) = Inr sc
              \<and> (\<forall>nb\<in>set (get_neighbors n w).
                    count_nonzero nb < count_nonzero w \<longrightarrow> \<not> fl_lt (cs nb) sc)))"

text \<open>The dictionary after a scan of \<open>ns\<close>.\<close>

definition scanned :: "(bool list \<Rightarrow> pyfloat) \<Rightarrow> cache \<Rightarrow> bool list list \<Rightarrow> cache" where
  "scanned cs D ns = foldl (\<lambda>D nb. D(nb \<mapsto> cs nb)) D ns"

text \<open>
  During the scan after the relaxation the score is the relaxed one until a move is made.
\<close>

definition relax_inv :: "(bool list \<Rightarrow> pyfloat) \<Rightarrow> nat \<Rightarrow> search_state \<Rightarrow> bool" where
  "relax_inv cs n st =
     (cache_ok cs (scoreD st) \<and> length (weights st) = n
      \<and> (bFoundBetterNeighbor st \<longrightarrow>
            score st = cs (weights st) \<and> L1 st = count_nonzero (weights st)))"



section \<open>Properties\<close>

subsection \<open>Evaluation\<close>

lemmas score_eval =
  test_fiducial_list_all_def test_fiducial_list_def make_prep_mxs_def make_meas_mxs_def
  gram_def eigvalsh_1x1_def list_score_def fl_sum_def default_threshold_def dot_mx_vec_def
  dot_vecT_mx_def compute_score_cached_def compute_score_def count_nonzero_def select_cols_def
  gs_scale_def

lemmas search_eval =
  optimize_integer_fiducials_slack_def example_args_def default_args_def xor_def
  local_search_def initial_state_def iteration_def get_neighbors_def scan_step_def
  relaxed_score_def slack_of_def relax_step_def upt_conv_Cons Let_def

text \<open>
  Concrete runs are evaluated by rewriting with the definitions on states that are written
  out as records, so that nothing is unfolded on a state that is not yet known.
\<close>

lemmas scan_step_on_state =
  scan_step_def [where st = "\<lparr>weights = w, score = s, L1 = l, lessWeightOnly = b, scoreD = D,
    bFoundBetterNeighbor = f, log = lg\<rparr>" for w s l b D f lg]

lemmas relax_step_on_state =
  relax_step_def [where st = "\<lparr>weights = w, score = s, L1 = l, lessWeightOnly = b, scoreD = D,
    bFoundBetterNeighbor = f, log = lg\<rparr>" for w s l b D f lg]

lemmas iteration_on_state =
  iteration_def [where ?st0.0 = "\<lparr>weights = w, score = s, L1 = l, lessWeightOnly = b, scoreD = D,
    bFoundBetterNeighbor = f, log = lg\<rparr>" for w s l b D f lg]

lemma main_loop_numeral:
  "main_loop cs n fS sF (numeral k) st =
     (case iteration cs n fS sF st of
        Inl e \<Rightarrow> Inl e
      | Inr (stop, st') \<Rightarrow> if stop then Inr st' else main_loop cs n fS sF (pred_numeral k) st')"
  by (simp add: numeral_eq_Suc)

lemmas main_loop_on_state =
  main_loop_numeral [where st = "\<lparr>weights = w, score = s, L1 = l, lessWeightOnly = b, scoreD = D,
    bFoundBetterNeighbor = f, log = lg\<rparr>" for w s l b D f lg]

lemma replicate_2: "replicate 2 x = [x, x]"
  by (simp add: numeral_2_eq_2)

lemma get_neighbors_2: "get_neighbors 2 [a, b] = [[\<not> a, b], [a, \<not> b]]"
  by (simp add: get_neighbors_def upt_conv_Cons)

lemma initial_state_value:
  "initial_state cs n iw =
     \<lparr>weights = (case iw of Some w \<Rightarrow> w | None \<Rightarrow> replicate n True),
      score = cs (case iw of Some w \<Rightarrow> w | None \<Rightarrow> replicate n True),
      L1 = count_nonzero (case iw of Some w \<Rightarrow> w | None \<Rightarrow> replicate n True),
      lessWeightOnly = (iw = None),
      scoreD = [(case iw of Some w \<Rightarrow> w | None \<Rightarrow> replicate n True)
                  \<mapsto> cs (case iw of Some w \<Rightarrow> w | None \<Rightarrow> replicate n True)],
      bFoundBetterNeighbor = False, log = []\<rparr>"
  by (simp add: initial_state_def compute_score_cached_def Let_def)

lemmas on_state =
  local_search_def initial_state_value main_loop_on_state iteration_on_state scan_step_on_state
  relax_step_on_state get_neighbors_2 replicate_2 count_nonzero_def relaxed_score_def slack_of_def
  compute_score_cached_def Let_def

lemma example_cs_half:
  "example_cs (1/2) [True, True] = Fl (8/5)" "example_cs (1/2) [True, False] = Fl 1"
  "example_cs (1/2) [False, True] = Fl (10 ^ 100)" "example_cs (1/2) [False, False] = Fl (10 ^ 100)"
  by (simp_all add: example_cs_def example_args_def default_args_def score_eval)

lemma example_cs_two:
  "example_cs 2 [True, True] = Fl (2/5)" "example_cs 2 [True, False] = Fl 1"
  "example_cs 2 [False, True] = Fl (10 ^ 100)" "example_cs 2 [False, False] = Fl (10 ^ 100)"
  by (simp_all add: example_cs_def example_args_def default_args_def score_eval)

text \<open>The score depends on the arguments of the optimizer through three of them only.\<close>

lemma compute_score_args:
  assumes "forceEmpty a = forceEmpty b" and "forceEmptyScore a = forceEmptyScore b"
    and "scoreFunc a = scoreFunc b"
  shows "compute_score eigvalsh d fal a = compute_score eigvalsh d fal b"
  using assms by (simp add: fun_eq_iff compute_score_def)

lemma optimize_local_search:
  assumes "xor [fixedSlack a, slackFrac a]"
    and "test_fiducial_list_all eigvalsh gs (fidList a) (prepOrMeas a) (scoreFunc a) (threshold a)
           = Inr (True, spectrum, sc)"
    and "prepOrMeas a = Some ''prep''"
    and "fixedNum a = None"
    and "local_search (compute_score eigvalsh (get_dimension gs) (make_prep_mxs gs (fidList a)) a)
           (length (fidList a)) (fixedSlack a) (slackFrac a) (maxIter a) (initialWeights a) = Inr st"
  shows "optimize_integer_fiducials_slack eigvalsh depth gs a
           = ([''Complete initial fiducial set succeeds.'', ''Now searching for best fiducial set.'',
               ''Final fiducial set succeeds.''],
              Inr (if returnAll a
                   then ReturnAll (select_cols (weights st) (fidList a)) (weights st) (scoreD st)
                   else ReturnList (select_cols (weights st) (fidList a))))"
  using assms by (simp add: optimize_integer_fiducials_slack_def Let_def)

text \<open>
  The optimizer on \<open>gs_scale g\<close> and \<open>example_args\<close> with other slacks and another
  threshold: what is needed to apply \<open>optimize_local_search\<close>.
\<close>

lemma example_run:
  assumes a: "a = example_args\<lparr>fixedSlack := fS, slackFrac := sF, threshold := thr\<rparr>"
    and x: "xor [fS, sF]"
    and t: "test_fiducial_list_all eigvalsh_1x1 (gs_scale g) [[], [''Gx'']] (Some ''prep'')
              Score_all thr = Inr (True, spectrum, sc)"
    and run: "local_search (example_cs g) 2 fS sF 100 None = Inr st"
  shows "optimize_integer_fiducials_slack eigvalsh_1x1 depth (gs_scale g) a
           = ([''Complete initial fiducial set succeeds.'', ''Now searching for best fiducial set.'',
               ''Final fiducial set succeeds.''],
              Inr (ReturnList (select_cols (weights st) [[], [''Gx'']])))"
proof -
  have f: "fidList a = [[], [''Gx'']]" "prepOrMeas a = Some ''prep''" "scoreFunc a = Score_all"
    "threshold a = thr" "fixedSlack a = fS" "slackFrac a = sF" "fixedNum a = None"
    "maxIter a = 100" "initialWeights a = None" "\<not> returnAll a"
    by (simp_all add: a example_args_def default_args_def)
  have cs: "compute_score eigvalsh_1x1 (get_dimension (gs_scale g))
              (make_prep_mxs (gs_scale g) [[], [''Gx'']]) a = example_cs g"
    unfolding example_cs_def
    by (simp add: gs_scale_def, rule compute_score_args)
       (simp_all add: a example_args_def default_args_def)
  have len: "length [[], [''Gx'']] = (2::nat)" by simp
  have x': "xor [fixedSlack a, slackFrac a]"
    unfolding f by (rule x)
  have t': "test_fiducial_list_all eigvalsh_1x1 (gs_scale g) (fidList a) (prepOrMeas a)
              (scoreFunc a) (threshold a) = Inr (True, spectrum, sc)"
    unfolding f by (rule t)
  have run': "local_search
                (compute_score eigvalsh_1x1 (get_dimension (gs_scale g))
                   (make_prep_mxs (gs_scale g) (fidList a)) a)
                (length (fidList a)) (fixedSlack a) (slackFrac a) (maxIter a) (initialWeights a)
              = Inr st"
    unfolding f cs len by (rule run)
  show ?thesis
    using optimize_local_search[OF x' t' f(2) f(7) run'] by (simp add: f)
qed

subsection \<open>The relaxation of the score\<close>

lemma relaxed_score_slackFrac:
  "relaxed_score None (Some (Fl g)) (Fl s) =
     (if g = 0 then Inl UnboundLocalError
      else if 0 < s * g then Inr (Fl (s * (1 + g))) else Inl AssertionError)"
  by (simp add: relaxed_score_def slack_of_def algebra_simps)

text \<open>
  Claim C1. After a scan that accepts no neighbour, the score \<open>s\<close> is to become
  \<open>s + fixedSlack\<close> under \<^verbatim>\<open>fixedSlack\<close> and \<open>s * (1 + slackFrac)\<close> under
  \<^verbatim>\<open>slackFrac\<close>. The second holds (\<open>relaxed_score_slackFrac\<close>). Under
  \<^verbatim>\<open>fixedSlack\<close> the code first sets \<^verbatim>\<open>slack = score + fixedSlack\<close> and then adds that
  to the score: the relaxed score is \<open>s + (s + fixedSlack)\<close>, against the docstring's
  ``additively by fixedSlack''.
\<close>

theorem C1_fixedSlack_adds_score_twice:
  "relaxed_score (Some (Fl f)) None (Fl s) =
     (if f = 0 then Inl UnboundLocalError
      else if 0 < s + f then Inr (Fl (s + (s + f))) else Inl AssertionError)"
  by (simp add: relaxed_score_def slack_of_def)

text \<open>
  At the two fiducials of \<open>example_args\<close> on \<open>gs_scale 2\<close> the full set scores \<open>2/5\<close> and
  \<open>{}\<close> alone scores \<open>1\<close>. With \<^verbatim>\<open>fixedSlack=0.3\<close> the relaxed score is \<open>11/10\<close>, not
  \<open>7/10\<close>, and the search drops \<open>Gx\<close>.
\<close>

lemma fixedSlack_example_score:
  "relaxed_score (Some (Fl (3/10))) None (Fl (2/5)) = Inr (Fl (11/10))"
  by (simp add: relaxed_score_def slack_of_def)

lemma fixedSlack_example_run:
  "optimize_integer_fiducials_slack eigvalsh_1x1 10 (gs_scale 2)
     (example_args\<lparr>fixedSlack := Some (Fl (3/10))\<rparr>) =
   ([''Complete initial fiducial set succeeds.'', ''Now searching for best fiducial set.'',
     ''Final fiducial set succeeds.''], Inr (ReturnList [[]]))"
proof -
  have a: "example_args\<lparr>fixedSlack := Some (Fl (3/10))\<rparr>
             = example_args\<lparr>fixedSlack := Some (Fl (3/10)), slackFrac := None,
                 threshold := default_threshold\<rparr>"
    by (simp add: example_args_def default_args_def)
  have x: "xor [Some (Fl (3/10)), None]" by (simp add: xor_def)
  have t: "test_fiducial_list_all eigvalsh_1x1 (gs_scale 2) [[], [''Gx'']] (Some ''prep'')
              Score_all default_threshold = Inr (True, [5], Fl (2/5))"
    by (simp add: score_eval)
  have "\<exists>st. local_search (example_cs 2) 2 (Some (Fl (3/10))) None 100 None = Inr st
          \<and> weights st = [True, False]"
    by (simp add: on_state example_cs_two)
  then obtain st where run: "local_search (example_cs 2) 2 (Some (Fl (3/10))) None 100 None = Inr st"
    and w: "weights st = [True, False]"
    by blast
  show ?thesis
    using example_run[OF a x t run] by (simp add: w select_cols_def)
qed

subsection \<open>The completeness test\<close>

lemma test_fiducial_list_all_result:
  assumes "test_fiducial_list_all eigvalsh gs fl m sf thr = Inr (r, spectrum, sc)"
  shows "r = (\<not> fl_le sc (Fl 0) \<and> \<not> fl_isinf sc \<and> \<not> fl_lt thr sc)"
  using assms by (auto simp: test_fiducial_list_all_def Let_def split: if_splits)

lemma test_fiducial_list_all_error:
  assumes "test_fiducial_list_all eigvalsh gs fl m sf thr = Inl e"
  shows "e = ValueError invalid_prepOrMeas"
  using assms by (auto simp: test_fiducial_list_all_def Let_def split: if_splits)

text \<open>Away from NaN the test is the one of the spec: \<open>0 < score \<le> threshold\<close>, finite.\<close>

lemma test_condition_without_NaN:
  assumes "sc \<noteq> NaN" and "thr \<noteq> NaN"
  shows "(\<not> fl_le sc (Fl 0) \<and> \<not> fl_isinf sc \<and> \<not> fl_lt thr sc)
           = (fl_lt (Fl 0) sc \<and> fl_le sc thr \<and> fl_isfinite sc)"
  using assms by (cases sc; cases thr) auto

text \<open>
  Claim C5. \<^verbatim>\<open>test_fiducial_list\<close> is to return True exactly when
  \<open>0 < score \<le> threshold\<close> and the score is finite, so False on NaN. The code rejects
  \<open>score \<le> 0\<close>, \<^verbatim>\<open>isinf(score)\<close> and \<open>score > threshold\<close>; all three are false on NaN.
  The empty fiducial list gives the zero Gram matrix, an infinite sum of reciprocals and the
  score \<open>0 * inf\<close>, which is NaN: the list with no fiducial passes the test.
\<close>

theorem C5_empty_list_scores_NaN_and_passes:
  "test_fiducial_list_all eigvalsh_1x1 (gs_scale 2) [] (Some ''prep'') Score_all default_threshold
     = Inr (True, [0], NaN)
   \<and> test_fiducial_list eigvalsh_1x1 (gs_scale 2) [] (Some ''prep'') Score_all default_threshold
     = Inr True"
  by (simp add: score_eval)

subsection \<open>The enumeration of bit vectors\<close>

text \<open>
  With a negative depth counter \<open>i\<close> the recursion of \<^verbatim>\<open>build_mx\<close> never reaches
  \<open>i = 0\<close>, and the range of the loop is never empty: every depth is used up.
\<close>

lemma build_mx_negative_depth:
  "i < 0 \<Longrightarrow> last prev < diff + k - i \<Longrightarrow> build_mx depth k diff prev i st = Inl RecursionError"
proof (induction depth arbitrary: prev i st)
  case 0
  then show ?case by simp
next
  case (Suc depth)
  have range: "[1 + last prev .. diff + (k - i)]
                 = (1 + last prev) # [2 + last prev .. diff + (k - i)]"
    using Suc.prems by (simp add: upto_rec1)
  have "build_mx depth k diff (prev @ [1 + last prev]) (i - 1) st = Inl RecursionError"
    using Suc.prems by (intro Suc.IH) auto
  then show ?case
    using Suc.prems by (simp add: range Let_def)
qed

text \<open>
  Claim C6. For \<open>0 \<le> k \<le> n\<close>, \<^verbatim>\<open>build_bitvec_mx(n, k)\<close> is to return the
  \<open>C(n, k)\<close> vectors of weight \<open>k\<close>. For \<open>k = 0\<close> the array has its one row, but the first
  call is \<^verbatim>\<open>build_mx((0,), -1, 0)\<close>: the recursion does not end, whatever the recursion
  limit, and the call raises RecursionError instead of returning the zero vector.
\<close>

theorem C6_weight_zero_never_returns:
  "build_bitvec_mx depth (int n) 0 = Inl RecursionError"
proof -
  have "[0 .. int n] = 0 # [1 .. int n]"
    by (simp add: upto_rec1)
  moreover have "build_mx depth 0 (int n) [0] (- 1) st = Inl RecursionError" for st
    by (rule build_mx_negative_depth) auto
  ultimately show ?thesis
    by (simp add: build_bitvec_mx_def binom_def)
qed

subsection \<open>The configuration check\<close>

lemma xor_two: "xor [x, y] = (py_bool x \<noteq> py_bool y)"
  by (auto simp: xor_def)

text \<open>
  Claim C7, as amended. The optimizer raises the configuration error exactly when the
  number of true values among \<^verbatim>\<open>fixedSlack\<close> and \<^verbatim>\<open>slackFrac\<close>, as \<^verbatim>\<open>bool\<close> sees
  them, is not one: \<^verbatim>\<open>None\<close> and \<open>0.0\<close> both count as not given. Nothing has been printed
  then, and the error comes whatever the gate set, the fiducial list and the mode are, so
  before any scoring.
\<close>

theorem C7_config_error_iff_not_exactly_one_truthy:
  "(optimize_integer_fiducials_slack eigvalsh depth gs a = ([], Inl (ValueError slack_message)))
     = (py_bool (fixedSlack a) = py_bool (slackFrac a))"
proof (cases "xor [fixedSlack a, slackFrac a]")
  case False
  then show ?thesis
    by (simp add: optimize_integer_fiducials_slack_def xor_two)
next
  case True
  have msg: "invalid_prepOrMeas \<noteq> slack_message"
    by (simp add: invalid_prepOrMeas_def slack_message_def)
  have "optimize_integer_fiducials_slack eigvalsh depth gs a \<noteq> ([], Inl (ValueError slack_message))"
    using True msg
    by (auto simp: optimize_integer_fiducials_slack_def Let_def
          dest: test_fiducial_list_all_error split: sum.splits option.splits)
  with True show ?thesis
    by (simp add: xor_two)
qed

text \<open>
  Claim C7 as stated fails: with \<^verbatim>\<open>fixedSlack=0.0\<close> and no \<^verbatim>\<open>slackFrac\<close> exactly one
  of the two is supplied, and the optimizer raises the configuration error.
\<close>

theorem C7_zero_fixedSlack_raises:
  "fixedSlack (example_args\<lparr>fixedSlack := Some (Fl 0)\<rparr>) \<noteq> None
   \<and> slackFrac (example_args\<lparr>fixedSlack := Some (Fl 0)\<rparr>) = None
   \<and> optimize_integer_fiducials_slack eigvalsh_1x1 10 (gs_scale 2)
       (example_args\<lparr>fixedSlack := Some (Fl 0)\<rparr>) = ([], Inl (ValueError slack_message))"
  by (simp add: optimize_integer_fiducials_slack_def xor_def example_args_def default_args_def)

subsection \<open>The message after the search\<close>

text \<open>
  Claim C3. After a search the optimizer is to warn exactly when the selected subset scores
  above the threshold. The test of the final subset is commented out and the message is
  chosen by \<^verbatim>\<open>initial_test[0]\<close>, which is True whenever the search ran: the warning is
  never printed. With \<^verbatim>\<open>slackFrac=2\<close> and \<^verbatim>\<open>threshold=0.5\<close> the full set (score
  \<open>2/5\<close>) passes and the search ends at \<open>{}\<close> alone, whose score \<open>1\<close> fails the test; the
  message is still the one of success.
\<close>

theorem C3_final_message_ignores_final_subset:
  "optimize_integer_fiducials_slack eigvalsh_1x1 10 (gs_scale 2)
     (example_args\<lparr>slackFrac := Some (Fl 2), threshold := Fl (1/2)\<rparr>)
     = ([''Complete initial fiducial set succeeds.'', ''Now searching for best fiducial set.'',
         ''Final fiducial set succeeds.''], Inr (ReturnList [[]]))
   \<and> test_fiducial_list_all eigvalsh_1x1 (gs_scale 2) [[]] (Some ''prep'') Score_all (Fl (1/2))
     = Inr (False, [1], Fl 1)"
proof -
  have a: "example_args\<lparr>slackFrac := Some (Fl 2), threshold := Fl (1/2)\<rparr>
             = example_args\<lparr>fixedSlack := None, slackFrac := Some (Fl 2), threshold := Fl (1/2)\<rparr>"
    by (simp add: example_args_def default_args_def)
  have x: "xor [None, Some (Fl 2)]" by (simp add: xor_def)
  have t: "test_fiducial_list_all eigvalsh_1x1 (gs_scale 2) [[], [''Gx'']] (Some ''prep'')
              Score_all (Fl (1/2)) = Inr (True, [5], Fl (2/5))"
    by (simp add: score_eval)
  have "\<exists>st. local_search (example_cs 2) 2 None (Some (Fl 2)) 100 None = Inr st
          \<and> weights st = [True, False]"
    by (simp add: on_state example_cs_two)
  then obtain st where run: "local_search (example_cs 2) 2 None (Some (Fl 2)) 100 None = Inr st"
    and w: "weights st = [True, False]"
    by blast
  have final: "test_fiducial_list_all eigvalsh_1x1 (gs_scale 2) [[]] (Some ''prep'') Score_all
                 (Fl (1/2)) = Inr (False, [1], Fl 1)"
    by (simp add: score_eval)
  show ?thesis
    using example_run[OF a x t run] final by (simp add: w select_cols_def)
qed

subsection \<open>The score of the full list\<close>










subsection \<open>Removing a fiducial\<close>














subsection \<open>The keyword dictionary of generate_fiducials\<close>


lemma generate_fiducials_other_algorithm:
  "algorithm \<noteq> ''slack'' \<Longrightarrow>
     generate_fiducials eigvalsh depth lag gs omit maxLen algorithm kw v
       = (kw, [], Inl (ValueError ''not a valid algorithm identifier''))"
  by (simp add: generate_fiducials_def Let_def)






text \<open>
  Claim C10 as stated fails for an algorithm other than \<open>slack\<close>. The docstring gives
  \<^verbatim>\<open>'greedy'\<close> as the other value of \<^verbatim>\<open>algorithm\<close>; with it the function raises
  ValueError before it writes anything: the caller's empty dictionary has no \<open>fidList\<close>
  after the call, and the default object is left empty too.
\<close>

theorem C10_other_algorithm_leaves_the_dictionary:
  "generate_fiducials eigvalsh_1x1 10 all_gatestrings_by_length (gs_scale 2) [] 1 ''greedy'' [] 0
     = ([], [], Inl (ValueError ''not a valid algorithm identifier''))
   \<and> map_of (fst (generate_fiducials eigvalsh_1x1 10 all_gatestrings_by_length (gs_scale 2) [] 1
                 ''greedy'' [] 0)) ''fidList'' = None
   \<and> map_of (fst (generate_fiducials eigvalsh_1x1 10 all_gatestrings_by_length (gs_scale 2) [] 1
                 ''greedy'' [] 0)) ''verbosity'' = None
   \<and> fst (call_generate_fiducials eigvalsh_1x1 10 all_gatestrings_by_length (gs_scale 2) [] 1
            ''greedy'' None 0 []) = []"
  by (simp add: generate_fiducials_other_algorithm call_generate_fiducials_def)

text \<open>The whole call on the example: both searches keep both fiducials.\<close>

lemma generate_fiducials_example:
  "generate_fiducials eigvalsh_1x1 10 all_gatestrings_by_length (gs_scale 2) [] 1 ''slack'' [] 0
    = ([(''slackFrac'', PyFloat (Fl 1)), (''fidList'', PyFidList [[], [''Gx'']]),
          (''verbosity'', PyInt 0)], 
  [''Complete initial fiducial set succeeds.'',
   ''Now searching for best fiducial set.'',
   ''Final fiducial set succeeds.'',
   ''Complete initial fiducial set succeeds.'',
   ''Now searching for best fiducial set.'',
   ''Final fiducial set succeeds.''],
  Inr (ReturnList [[], [''Gx'']], ReturnList [[], [''Gx'']]))"
  by (simp add: generate_fiducials_def fill_kwargs_def call_with_kwargs_def all_gatestrings_by_length_def
      search_eval score_eval List.n_lists.simps eval_nat_numeral)

subsection \<open>The search over the subsets of a fixed size\<close>

lemma near_tie_Fl [simp]: "near_tie (Fl x) (Fl y) = (\<bar>x - y\<bar> < 1 / 100000000)"
  by (simp add: near_tie_def fl_sub_def)







lemma optimize_fixedNum:
  assumes "xor [fixedSlack a, slackFrac a]"
    and "test_fiducial_list_all eigvalsh gs (fidList a) (prepOrMeas a) (scoreFunc a) (threshold a)
           = Inr (True, spectrum, sc)"
    and "prepOrMeas a = Some ''prep''"
    and "fixedNum a = Some n"
  shows "optimize_integer_fiducials_slack eigvalsh depth gs a
           = ([''Complete initial fiducial set succeeds.'', ''Now searching for best fiducial set.''],
              fixed_num_search
                (compute_score eigvalsh (get_dimension gs) (make_prep_mxs gs (fidList a)) a)
                depth a n)"
  using assms by (simp add: optimize_integer_fiducials_slack_def Let_def)


lemma build_bitvec_mx_2_1: "build_bitvec_mx 10 2 1 = Inr [[True, False], [False, True]]"
  by (simp add: build_bitvec_mx_def binom_def set_bits_def eval_nat_numeral upto.simps)


lemma fixed_cs_values:
  "fixed_cs [True, True, False] = Fl (2/5)" "fixed_cs [True, False, True] = Fl (2/17)"
  by (simp_all add: fixed_cs_def fixed_args_def default_args_def score_eval)


lemma fixed_args_search:
  "fixed_num_search fixed_cs 10 fixed_args 2 = Inr (ReturnList [[], [''Gx'', ''Gx'']])"
proof -
  have args: "forceEmpty fixed_args" "\<not> returnAll fixed_args"
    "fidList fixed_args = [[], [''Gx''], [''Gx'', ''Gx'']]"
    by (simp_all add: fixed_args_def default_args_def)
  show ?thesis
    by (simp add: fixed_num_search_def args build_bitvec_mx_2_1 fixed_num_step_def
          compute_score_cached_def fixed_cs_values near_tie_def fl_sub_def select_cols_def)
qed

lemma fixed_args_run:
  "optimize_integer_fiducials_slack eigvalsh_1x1 10 (gs_scale 2) fixed_args
     = ([''Complete initial fiducial set succeeds.'', ''Now searching for best fiducial set.''],
        Inr (ReturnList [[], [''Gx'', ''Gx'']]))"
proof -
  have x: "xor [fixedSlack fixed_args, slackFrac fixed_args]"
    by (simp add: fixed_args_def default_args_def xor_def)
  have t: "test_fiducial_list_all eigvalsh_1x1 (gs_scale 2) (fidList fixed_args)
             (prepOrMeas fixed_args) (scoreFunc fixed_args) (threshold fixed_args)
           = Inr (True, [21], Fl (1/7))"
    by (simp add: fixed_args_def default_args_def score_eval)
  have m: "prepOrMeas fixed_args = Some ''prep''" and n: "fixedNum fixed_args = Some 2"
    by (simp_all add: fixed_args_def default_args_def)
  have d: "get_dimension (gs_scale 2) = 1" by (simp add: gs_scale_def)
  show ?thesis
    unfolding optimize_fixedNum[OF x t m n] d fixed_cs_def[symmetric] fixed_args_search ..
qed




subsection \<open>The local search\<close>

lemma cache_ok_upd: "cache_ok cs D \<Longrightarrow> cache_ok cs (D(k \<mapsto> cs k))"
  by (simp add: cache_ok_def)

lemma scan_step_simp:
  assumes "cache_ok cs (scoreD st)"
  shows "scan_step cs st nb =
           (if accepts cs (score st) (L1 st) (lessWeightOnly st) nb
            then st\<lparr>weights := nb, score := cs nb, L1 := count_nonzero nb,
                    scoreD := (scoreD st)(nb \<mapsto> cs nb), bFoundBetterNeighbor := True,
                    log := log st @ [Found_better_neighbor]\<rparr>
            else st\<lparr>scoreD := (scoreD st)(nb \<mapsto> cs nb)\<rparr>)"
proof (cases "scoreD st nb")
  case None
  then show ?thesis
    by (auto simp: scan_step_def compute_score_cached_def accepts_def Let_def)
next
  case (Some v)
  with assms have v: "v = cs nb" by (simp add: cache_ok_def)
  with Some have "(scoreD st)(nb \<mapsto> cs nb) = scoreD st" by (simp add: fun_upd_idem)
  with Some v show ?thesis
    by (auto simp: scan_step_def accepts_def Let_def)
qed

lemma scan_step_flag:
  "bFoundBetterNeighbor st \<Longrightarrow> bFoundBetterNeighbor (scan_step cs st nb)"
  by (simp add: scan_step_def Let_def split: prod.splits)

lemma scan_fold_flag:
  "bFoundBetterNeighbor st \<Longrightarrow> bFoundBetterNeighbor (foldl (scan_step cs) st ns)"
  by (induction ns arbitrary: st) (simp_all add: scan_step_flag)

lemma scan_step_inv:
  assumes "search_inv cs n st" and "length nb = n"
  shows "search_inv cs n (scan_step cs st nb)"
  using assms unfolding search_inv_def
  by (simp add: scan_step_simp cache_ok_upd)

lemma scan_fold_inv:
  "search_inv cs n st \<Longrightarrow> \<forall>nb\<in>set ns. length nb = n \<Longrightarrow> search_inv cs n (foldl (scan_step cs) st ns)"
  by (induction ns arbitrary: st) (simp_all add: scan_step_inv)

lemma scanned_Cons: "scanned cs D (nb # ns) = scanned cs (D(nb \<mapsto> cs nb)) ns"
  by (simp add: scanned_def)

lemma scanned_keeps: "D k = Some (cs k) \<Longrightarrow> scanned cs D ns k = Some (cs k)"
  by (induction ns arbitrary: D) (simp_all add: scanned_Cons scanned_def)

lemma scanned_has: "nb \<in> set ns \<Longrightarrow> scanned cs D ns nb = Some (cs nb)"
proof (induction ns arbitrary: D)
  case Nil then show ?case by simp
next
  case (Cons a ns)
  show ?case
  proof (cases "nb = a")
    case True
    then show ?thesis by (simp add: scanned_Cons scanned_keeps)
  next
    case False
    with Cons show ?thesis by (simp add: scanned_Cons)
  qed
qed

lemma scanned_ok: "cache_ok cs D \<Longrightarrow> cache_ok cs (scanned cs D ns)"
  by (induction ns arbitrary: D) (simp_all add: scanned_Cons cache_ok_upd scanned_def)

lemma scan_fold_none:
  assumes "cache_ok cs (scoreD st)"
    and "\<forall>nb\<in>set ns. \<not> accepts cs (score st) (L1 st) (lessWeightOnly st) nb"
  shows "foldl (scan_step cs) st ns = st\<lparr>scoreD := scanned cs (scoreD st) ns\<rparr>"
  using assms
proof (induction ns arbitrary: st)
  case Nil
  then show ?case by (simp add: scanned_def)
next
  case (Cons nb ns)
  let ?st1 = "st\<lparr>scoreD := (scoreD st)(nb \<mapsto> cs nb)\<rparr>"
  have step: "scan_step cs st nb = ?st1"
    using Cons.prems by (simp add: scan_step_simp)
  have ok1: "cache_ok cs (scoreD ?st1)"
    using Cons.prems(1) by (simp add: cache_ok_def)
  have none1: "\<forall>nb\<in>set ns. \<not> accepts cs (score ?st1) (L1 ?st1) (lessWeightOnly ?st1) nb"
    using Cons.prems(2) by simp
  have "foldl (scan_step cs) ?st1 ns = ?st1\<lparr>scoreD := scanned cs (scoreD ?st1) ns\<rparr>"
    using ok1 none1 by (rule Cons.IH)
  then show ?case by (simp add: step scanned_Cons)
qed

lemma scan_fold_no_flag:
  assumes "cache_ok cs (scoreD st)"
    and "\<not> bFoundBetterNeighbor (foldl (scan_step cs) st ns)"
  shows "\<forall>nb\<in>set ns. \<not> accepts cs (score st) (L1 st) (lessWeightOnly st) nb"
  using assms
proof (induction ns arbitrary: st)
  case Nil
  then show ?case by simp
next
  case (Cons nb ns)
  let ?st1 = "st\<lparr>scoreD := (scoreD st)(nb \<mapsto> cs nb)\<rparr>"
  have no: "\<not> accepts cs (score st) (L1 st) (lessWeightOnly st) nb"
  proof
    assume "accepts cs (score st) (L1 st) (lessWeightOnly st) nb"
    then have "bFoundBetterNeighbor (scan_step cs st nb)"
      using Cons.prems(1) by (simp add: scan_step_simp)
    then have "bFoundBetterNeighbor (foldl (scan_step cs) (scan_step cs st nb) ns)"
      by (rule scan_fold_flag)
    with Cons.prems(2) show False by simp
  qed
  then have step: "scan_step cs st nb = ?st1"
    using Cons.prems(1) by (simp add: scan_step_simp)
  have ok1: "cache_ok cs (scoreD ?st1)"
    using Cons.prems(1) by (simp add: cache_ok_def)
  have flag1: "\<not> bFoundBetterNeighbor (foldl (scan_step cs) ?st1 ns)"
    using Cons.prems(2) by (simp add: step)
  have "\<forall>nb\<in>set ns. \<not> accepts cs (score ?st1) (L1 ?st1) (lessWeightOnly ?st1) nb"
    using ok1 flag1 by (rule Cons.IH)
  with no show ?case by simp
qed

lemma relax_step_cases:
  assumes "relax_step nb st = Inr st'"
  obtains (keep) "st' = st"
      "count_nonzero nb < L1 st \<longrightarrow> (\<exists>v. scoreD st nb = Some v \<and> \<not> fl_lt v (score st))"
    | (move) v where "count_nonzero nb < L1 st" "scoreD st nb = Some v" "fl_lt v (score st)"
      "st' = st\<lparr>weights := nb, score := v, L1 := count_nonzero nb,
                bFoundBetterNeighbor := True, log := log st @ [Found_better_neighbor]\<rparr>"
  using assms by (auto simp: relax_step_def split: if_splits option.splits)

lemma relax_step_flag:
  "bFoundBetterNeighbor st \<Longrightarrow> relax_step nb st = Inr st' \<Longrightarrow> bFoundBetterNeighbor st'"
  by (erule relax_step_cases) auto

lemma relax_loop_flag:
  "bFoundBetterNeighbor st \<Longrightarrow> for_loop ns relax_step st = Inr st' \<Longrightarrow> bFoundBetterNeighbor st'"
proof (induction ns arbitrary: st)
  case Nil
  then show ?case by simp
next
  case (Cons nb ns)
  from Cons.prems(2) obtain st1 where s1: "relax_step nb st = Inr st1"
    and rest: "for_loop ns relax_step st1 = Inr st'"
    by (auto split: sum.splits)
  from Cons.prems(1) s1 have "bFoundBetterNeighbor st1" by (rule relax_step_flag)
  then show ?case using rest by (rule Cons.IH)
qed

lemma relax_loop_none:
  assumes "\<forall>nb\<in>set ns. count_nonzero nb < L1 st \<longrightarrow>
             (\<exists>v. scoreD st nb = Some v \<and> \<not> fl_lt v (score st))"
  shows "for_loop ns relax_step st = Inr st"
  using assms
proof (induction ns)
  case Nil
  then show ?case by simp
next
  case (Cons nb ns)
  then have "relax_step nb st = Inr st"
    by (auto simp: relax_step_def)
  with Cons show ?case by simp
qed

lemma relax_loop_no_flag:
  assumes "for_loop ns relax_step st = Inr st'" and "\<not> bFoundBetterNeighbor st'"
  shows "st' = st \<and> (\<forall>nb\<in>set ns. count_nonzero nb < L1 st \<longrightarrow>
                        (\<exists>v. scoreD st nb = Some v \<and> \<not> fl_lt v (score st)))"
  using assms
proof (induction ns arbitrary: st)
  case Nil
  then show ?case by simp
next
  case (Cons nb ns)
  from Cons.prems(1) obtain st1 where s1: "relax_step nb st = Inr st1"
    and rest: "for_loop ns relax_step st1 = Inr st'"
    by (auto split: sum.splits)
  from s1 show ?case
  proof (cases rule: relax_step_cases)
    case keep
    with rest Cons.prems(2) Cons.IH[of st] show ?thesis by simp
  next
    case (move v)
    then have "bFoundBetterNeighbor st1" by simp
    then have "bFoundBetterNeighbor st'" using rest by (rule relax_loop_flag)
    with Cons.prems(2) show ?thesis by simp
  qed
qed

lemma relax_step_inv:
  assumes "relax_inv cs n st" and "length nb = n" and "relax_step nb st = Inr st'"
  shows "relax_inv cs n st'"
  using assms(3)
proof (cases rule: relax_step_cases)
  case keep
  with assms(1) show ?thesis by simp
next
  case (move v)
  from assms(1) have "cache_ok cs (scoreD st)" by (simp add: relax_inv_def)
  with move(2) have "v = cs nb" by (simp add: cache_ok_def)
  with assms(1,2) move(4) show ?thesis by (simp add: relax_inv_def)
qed

lemma relax_loop_inv:
  assumes "relax_inv cs n st" and "\<forall>nb\<in>set ns. length nb = n"
    and "for_loop ns relax_step st = Inr st'"
  shows "relax_inv cs n st'"
  using assms
proof (induction ns arbitrary: st)
  case Nil
  then show ?case by simp
next
  case (Cons nb ns)
  from Cons.prems(3) obtain st1 where s1: "relax_step nb st = Inr st1"
    and rest: "for_loop ns relax_step st1 = Inr st'"
    by (auto split: sum.splits)
  have "relax_inv cs n st1"
    using Cons.prems(1) _ s1 by (rule relax_step_inv) (use Cons.prems(2) in simp)
  then show ?case
    using _ rest by (rule Cons.IH) (use Cons.prems(2) in simp)
qed

lemma get_neighbors_length: "nb \<in> set (get_neighbors n w) \<Longrightarrow> length nb = length w"
  by (auto simp: get_neighbors_def)

lemma iteration_unfold:
  "iteration cs n fS sF st0 =
     (let st1 = foldl (scan_step cs) (st0\<lparr>bFoundBetterNeighbor := False\<rparr>)
                  (get_neighbors n (weights st0))
      in if bFoundBetterNeighbor st1
         then Inr (False, st1\<lparr>log := log st1 @ [Moving_to_better_neighbor]\<rparr>)
         else case relaxed_score fS sF (score st1) of
                Inl e \<Rightarrow> Inl e
              | Inr sc \<Rightarrow>
                  (case for_loop (get_neighbors n (weights st1)) relax_step
                          (st1\<lparr>lessWeightOnly := True, score := sc,
                               log := log st1 @ [No_better_neighbor]\<rparr>) of
                     Inl e \<Rightarrow> Inl e
                   | Inr st3 \<Rightarrow>
                       if bFoundBetterNeighbor st3
                       then Inr (False, st3\<lparr>log := log st3 @ [Moving_to_better_neighbor]\<rparr>)
                       else Inr (True, st3\<lparr>log := log st3 @ [Stationary_point_found]\<rparr>)))"
  by (simp add: iteration_def Let_def split: sum.splits)

lemma search_inv_flag:
  "search_inv cs n (st\<lparr>bFoundBetterNeighbor := b\<rparr>) = search_inv cs n st"
  by (simp add: search_inv_def)

lemma search_inv_log: "search_inv cs n (st\<lparr>log := l\<rparr>) = search_inv cs n st"
  by (simp add: search_inv_def)

lemma scan_result_inv:
  assumes "search_inv cs n st0"
  shows "search_inv cs n (foldl (scan_step cs) (st0\<lparr>bFoundBetterNeighbor := False\<rparr>)
                           (get_neighbors n (weights st0)))"
proof (rule scan_fold_inv)
  show "search_inv cs n (st0\<lparr>bFoundBetterNeighbor := False\<rparr>)"
    using assms by (simp add: search_inv_flag)
  show "\<forall>nb\<in>set (get_neighbors n (weights st0)). length nb = n"
    using assms by (auto simp: search_inv_def dest: get_neighbors_length)
qed

lemma iteration_cont:
  assumes inv: "search_inv cs n st0" and it: "iteration cs n fS sF st0 = Inr (False, st')"
  shows "search_inv cs n st'"
proof -
  let ?st1 = "foldl (scan_step cs) (st0\<lparr>bFoundBetterNeighbor := False\<rparr>)
                (get_neighbors n (weights st0))"
  have inv1: "search_inv cs n ?st1" using inv by (rule scan_result_inv)
  show ?thesis
  proof (cases "bFoundBetterNeighbor ?st1")
    case True
    with it have "st' = ?st1\<lparr>log := log ?st1 @ [Moving_to_better_neighbor]\<rparr>"
      by (simp add: iteration_unfold Let_def)
    with inv1 show ?thesis by (simp add: search_inv_log)
  next
    case False
    with it obtain sc st3 where
      loop: "for_loop (get_neighbors n (weights ?st1)) relax_step
               (?st1\<lparr>lessWeightOnly := True, score := sc,
                      log := log ?st1 @ [No_better_neighbor]\<rparr>) = Inr st3"
      and flag: "bFoundBetterNeighbor st3"
      and st': "st' = st3\<lparr>log := log st3 @ [Moving_to_better_neighbor]\<rparr>"
      by (auto simp: iteration_unfold Let_def split: sum.splits if_splits)
    let ?st2 = "?st1\<lparr>lessWeightOnly := True, score := sc, log := log ?st1 @ [No_better_neighbor]\<rparr>"
    have "relax_inv cs n ?st2"
      using inv1 False by (simp add: relax_inv_def search_inv_def)
    moreover have "\<forall>nb\<in>set (get_neighbors n (weights ?st1)). length nb = n"
      using inv1 by (auto simp: search_inv_def dest: get_neighbors_length)
    ultimately have "relax_inv cs n st3" using loop by (rule relax_loop_inv)
    with flag have "search_inv cs n st3" by (simp add: relax_inv_def search_inv_def)
    with st' show ?thesis by (simp add: search_inv_log)
  qed
qed

lemma iteration_stop:
  assumes inv: "search_inv cs n st0" and it: "iteration cs n fS sF st0 = Inr (True, st')"
  shows "stationary cs n fS sF (weights st0) (lessWeightOnly st0)
         \<and> weights st' = weights st0
         \<and> log st' = log st0 @ [No_better_neighbor, Stationary_point_found]"
proof -
  let ?ns = "get_neighbors n (weights st0)"
  let ?st0 = "st0\<lparr>bFoundBetterNeighbor := False\<rparr>"
  let ?st1 = "foldl (scan_step cs) ?st0 ?ns"
  from inv have ok: "cache_ok cs (scoreD ?st0)" and sc0: "score st0 = cs (weights st0)"
    and l0: "L1 st0 = count_nonzero (weights st0)"
    by (simp_all add: search_inv_def)
  have noflag: "\<not> bFoundBetterNeighbor ?st1"
    using it by (auto simp: iteration_unfold Let_def split: if_splits)
  have none: "\<forall>nb\<in>set ?ns. \<not> accepts cs (score ?st0) (L1 ?st0) (lessWeightOnly ?st0) nb"
    using ok noflag by (rule scan_fold_no_flag)
  have st1: "?st1 = ?st0\<lparr>scoreD := scanned cs (scoreD ?st0) ?ns\<rparr>"
    using ok none by (rule scan_fold_none)
  let ?st1' = "?st0\<lparr>scoreD := scanned cs (scoreD ?st0) ?ns\<rparr>"
  from it noflag obtain sc st3 where
    rs: "relaxed_score fS sF (score ?st1) = Inr sc"
    and loop: "for_loop (get_neighbors n (weights ?st1)) relax_step
               (?st1\<lparr>lessWeightOnly := True, score := sc,
                      log := log ?st1 @ [No_better_neighbor]\<rparr>) = Inr st3"
    and flag3: "\<not> bFoundBetterNeighbor st3"
    and st': "st' = st3\<lparr>log := log st3 @ [Stationary_point_found]\<rparr>"
    by (auto simp: iteration_unfold Let_def split: sum.splits if_splits)
  let ?st2 = "?st1'\<lparr>lessWeightOnly := True, score := sc, log := log ?st1' @ [No_better_neighbor]\<rparr>"
  have loop': "for_loop ?ns relax_step ?st2 = Inr st3"
    using loop unfolding st1 by simp
  from relax_loop_no_flag[OF loop' flag3]
  have st3: "st3 = ?st2"
    and relaxed: "\<forall>nb\<in>set ?ns. count_nonzero nb < L1 ?st2 \<longrightarrow>
                    (\<exists>v. scoreD ?st2 nb = Some v \<and> \<not> fl_lt v (score ?st2))"
    by blast+
  have rs': "relaxed_score fS sF (cs (weights st0)) = Inr sc"
    using rs unfolding st1 by (simp add: sc0)
  have second: "\<forall>nb\<in>set ?ns. count_nonzero nb < count_nonzero (weights st0) \<longrightarrow> \<not> fl_lt (cs nb) sc"
  proof (intro ballI impI)
    fix nb assume nb: "nb \<in> set ?ns" and less: "count_nonzero nb < count_nonzero (weights st0)"
    from relaxed nb less l0 obtain v where
      v: "scanned cs (scoreD st0) ?ns nb = Some v" and nlt: "\<not> fl_lt v sc"
      by auto
    from nb have "scanned cs (scoreD st0) ?ns nb = Some (cs nb)" by (rule scanned_has)
    with v nlt show "\<not> fl_lt (cs nb) sc" by simp
  qed
  have first: "\<forall>nb\<in>set ?ns. \<not> accepts cs (cs (weights st0)) (count_nonzero (weights st0))
                                  (lessWeightOnly st0) nb"
    using none by (simp add: sc0 l0)
  have "stationary cs n fS sF (weights st0) (lessWeightOnly st0)"
    unfolding stationary_def using first rs' second by blast
  moreover have "weights st' = weights st0" using st' st3 by simp
  moreover have "log st' = log st0 @ [No_better_neighbor, Stationary_point_found]"
    using st' st3 by simp
  ultimately show ?thesis by blast
qed

lemma iteration_stationary:
  assumes inv: "search_inv cs n st0"
    and stat: "stationary cs n fS sF (weights st0) (lessWeightOnly st0)"
  shows "\<exists>st'. iteration cs n fS sF st0 = Inr (True, st') \<and> weights st' = weights st0
              \<and> log st' = log st0 @ [No_better_neighbor, Stationary_point_found]"
proof -
  let ?ns = "get_neighbors n (weights st0)"
  let ?st0 = "st0\<lparr>bFoundBetterNeighbor := False\<rparr>"
  let ?st1 = "?st0\<lparr>scoreD := scanned cs (scoreD ?st0) ?ns\<rparr>"
  from inv have ok: "cache_ok cs (scoreD ?st0)" and sc0: "score st0 = cs (weights st0)"
    and l0: "L1 st0 = count_nonzero (weights st0)"
    by (simp_all add: search_inv_def)
  from stat obtain sc where
    first: "\<forall>nb\<in>set ?ns. \<not> accepts cs (cs (weights st0)) (count_nonzero (weights st0))
                                  (lessWeightOnly st0) nb"
    and rs: "relaxed_score fS sF (cs (weights st0)) = Inr sc"
    and second: "\<forall>nb\<in>set ?ns. count_nonzero nb < count_nonzero (weights st0)
                                  \<longrightarrow> \<not> fl_lt (cs nb) sc"
    unfolding stationary_def by blast
  have none: "\<forall>nb\<in>set ?ns. \<not> accepts cs (score ?st0) (L1 ?st0) (lessWeightOnly ?st0) nb"
    using first by (simp add: sc0 l0)
  have st1: "foldl (scan_step cs) ?st0 ?ns = ?st1"
    using ok none by (rule scan_fold_none)
  let ?st2 = "?st1\<lparr>lessWeightOnly := True, score := sc, log := log ?st1 @ [No_better_neighbor]\<rparr>"
  have "\<forall>nb\<in>set ?ns. count_nonzero nb < L1 ?st2 \<longrightarrow>
          (\<exists>v. scoreD ?st2 nb = Some v \<and> \<not> fl_lt v (score ?st2))"
    using second by (simp add: l0 scanned_has)
  then have loop: "for_loop ?ns relax_step ?st2 = Inr ?st2"
    by (rule relax_loop_none)
  have "iteration cs n fS sF st0 = Inr (True, ?st2\<lparr>log := log ?st2 @ [Stationary_point_found]\<rparr>)"
    unfolding iteration_unfold st1 Let_def using rs loop by (simp add: sc0)
  then show ?thesis by simp
qed

lemma main_loop_converged:
  assumes "search_inv cs n st"
    and "main_loop cs n fS sF m st = Inr st'"
    and "last (log st') = Stationary_point_found"
  shows "\<exists>st0. search_inv cs n st0 \<and> iteration cs n fS sF st0 = Inr (True, st')"
  using assms
proof (induction m arbitrary: st)
  case 0
  then show ?case by auto
next
  case (Suc m)
  from Suc.prems(2) obtain stop st1 where it: "iteration cs n fS sF st = Inr (stop, st1)"
    and rest: "if stop then st' = st1 else main_loop cs n fS sF m st1 = Inr st'"
    by (auto split: sum.splits prod.splits if_splits)
  show ?case
  proof (cases stop)
    case True
    with it rest Suc.prems(1) show ?thesis by auto
  next
    case False
    with it Suc.prems(1) have "search_inv cs n st1" by (auto intro: iteration_cont)
    moreover from False rest have "main_loop cs n fS sF m st1 = Inr st'" by simp
    ultimately show ?thesis using Suc.prems(3) by (rule Suc.IH)
  qed
qed

lemma initial_state_inv:
  assumes "\<forall>w0. iw = Some w0 \<longrightarrow> length w0 = n"
  shows "search_inv cs n (initial_state cs n iw)"
  using assms
  by (cases iw) (simp_all add: initial_state_def compute_score_cached_def search_inv_def
      cache_ok_def Let_def)

lemma count_nonzero_update:
  "i < length w \<Longrightarrow>
     count_nonzero (w[i := b]) + (if w ! i then 1 else 0) = count_nonzero w + (if b then 1 else 0)"
proof (induction w arbitrary: i)
  case Nil
  then show ?case by simp
next
  case (Cons a w)
  show ?case
  proof (cases i)
    case 0
    then show ?thesis by (simp add: count_nonzero_def)
  next
    case (Suc j)
    with Cons.prems have "j < length w" by simp
    from Cons.IH[OF this] Suc show ?thesis
      by (cases a; cases b; cases "w ! j") (simp_all add: count_nonzero_def)
  qed
qed

lemma neighbor_count:
  assumes "nb \<in> set (get_neighbors (length w) w)"
  shows "count_nonzero nb < count_nonzero w \<or> count_nonzero w < count_nonzero nb"
proof -
  from assms obtain i where i: "i < length w" and nb: "nb = w[i := \<not> w ! i]"
    by (auto simp: get_neighbors_def)
  from count_nonzero_update[OF i, of "\<not> w ! i"] nb show ?thesis
    by (cases "w ! i") auto
qed

text \<open>
  Claim C4, as amended. Let a search (from all ones or from any initial weights) end at a
  stationary point with the weights \<open>w\<close>. If no neighbour of \<open>w\<close> of greater weight scores
  at most what \<open>w\<close> scores, the search started again from \<open>w\<close>, with the same scoring
  function, slack and \<^verbatim>\<open>maxIter\<close>, finds the stationary point in its first pass: no
  move is accepted (the log is ``no better neighbor'', ``stationary point found'') and the
  weights, so the subset returned (\<open>optimize_local_search\<close>), are the same. The condition
  is needed because a search given initial weights starts with \<^verbatim>\<open>lessWeightOnly\<close>
  false and may add fiducials; the first search, once relaxed, may not.
\<close>

theorem C4_rerun_from_stationary_point:
  assumes run: "local_search cs n fS sF m iw = Inr st"
    and conv: "last (log st) = Stationary_point_found"
    and len: "\<forall>w0. iw = Some w0 \<longrightarrow> length w0 = n"
    and grow: "\<forall>nb\<in>set (get_neighbors n (weights st)).
                 count_nonzero (weights st) < count_nonzero nb
                   \<longrightarrow> \<not> fl_le (cs nb) (cs (weights st))"
  shows "\<exists>st'. local_search cs n fS sF m (Some (weights st)) = Inr st'
              \<and> weights st' = weights st
              \<and> log st' = [No_better_neighbor, Stationary_point_found]"
proof -
  let ?w = "weights st"
  have inv0: "search_inv cs n (initial_state cs n iw)"
    using len by (rule initial_state_inv)
  from run have ml: "main_loop cs n fS sF m (initial_state cs n iw) = Inr st"
    by (simp add: local_search_def)
  from main_loop_converged[OF inv0 ml conv] obtain st0 where
    inv: "search_inv cs n st0" and it: "iteration cs n fS sF st0 = Inr (True, st)"
    by blast
  from iteration_stop[OF inv it] have stat: "stationary cs n fS sF (weights st0) (lessWeightOnly st0)"
    and w: "?w = weights st0"
    by simp_all
  from inv w have lw: "length ?w = n" by (simp add: search_inv_def)
  have stat': "stationary cs n fS sF ?w False"
  proof -
    from stat w obtain sc where
      first: "\<forall>nb\<in>set (get_neighbors n ?w).
                \<not> accepts cs (cs ?w) (count_nonzero ?w) (lessWeightOnly st0) nb"
      and rest: "relaxed_score fS sF (cs ?w) = Inr sc"
        "\<forall>nb\<in>set (get_neighbors n ?w). count_nonzero nb < count_nonzero ?w \<longrightarrow> \<not> fl_lt (cs nb) sc"
      unfolding stationary_def by auto
    have "\<not> accepts cs (cs ?w) (count_nonzero ?w) False nb" if nb: "nb \<in> set (get_neighbors n ?w)" for nb
    proof -
      from nb lw have "count_nonzero nb < count_nonzero ?w \<or> count_nonzero ?w < count_nonzero nb"
        using neighbor_count[of nb ?w] by simp
      then show ?thesis
      proof
        assume "count_nonzero nb < count_nonzero ?w"
        with first nb show ?thesis by (auto simp: accepts_def)
      next
        assume "count_nonzero ?w < count_nonzero nb"
        with grow nb show ?thesis by (auto simp: accepts_def)
      qed
    qed
    with rest show ?thesis unfolding stationary_def by blast
  qed
  let ?init = "initial_state cs n (Some ?w)"
  have init: "weights ?init = ?w" "lessWeightOnly ?init = False" "log ?init = []"
    by (simp_all add: initial_state_def Let_def)
  have inv2: "search_inv cs n ?init"
    using lw by (intro initial_state_inv) simp
  from iteration_stationary[OF inv2] stat' init obtain st' where
    it2: "iteration cs n fS sF ?init = Inr (True, st')" and w': "weights st' = ?w"
    and log': "log st' = [No_better_neighbor, Stationary_point_found]"
    by auto
  have "m \<noteq> 0"
  proof
    assume "m = 0"
    with ml have "last (log st) = Hit_max_iterations" by auto
    with conv show False by simp
  qed
  then obtain m' where m: "m = Suc m'" by (cases m) auto
  have "local_search cs n fS sF m (Some ?w) = Inr st'"
    using it2 by (simp add: local_search_def m)
  with w' log' show ?thesis by blast
qed

lemma example_half_run:
  "\<exists>st. local_search (example_cs (1/2)) 2 None (Some (Fl 1)) 100 None = Inr st
        \<and> weights st = [True, False]
        \<and> log st = [Found_better_neighbor, Moving_to_better_neighbor, No_better_neighbor,
                    Stationary_point_found]"
  by (simp add: on_state example_cs_half)

theorem C4_rerun_from_stationary_point_witness:
  "\<exists>st'. local_search (example_cs (1/2)) 2 None (Some (Fl 1)) 100 (Some [True, False]) = Inr st'
         \<and> weights st' = [True, False]
         \<and> log st' = [No_better_neighbor, Stationary_point_found]"
proof -
  from example_half_run obtain st where
    run: "local_search (example_cs (1/2)) 2 None (Some (Fl 1)) 100 None = Inr st"
    and w: "weights st = [True, False]"
    and l: "log st = [Found_better_neighbor, Moving_to_better_neighbor, No_better_neighbor,
                      Stationary_point_found]"
    by blast
  have conv: "last (log st) = Stationary_point_found" by (simp add: l)
  have len: "\<forall>w0. (None :: bool list option) = Some w0 \<longrightarrow> length w0 = 2" by simp
  have grow: "\<forall>nb\<in>set (get_neighbors 2 (weights st)).
                 count_nonzero (weights st) < count_nonzero nb
                   \<longrightarrow> \<not> fl_le (example_cs (1/2) nb) (example_cs (1/2) (weights st))"
    by (simp add: w get_neighbors_def upt_conv_Cons count_nonzero_def example_cs_half)
  show ?thesis
    using C4_rerun_from_stationary_point [OF run conv len grow] by (simp add: w)
qed

text \<open>
  Claim C4 as stated fails. On \<open>gs_scale 2\<close> with \<^verbatim>\<open>slackFrac=2\<close> the search from all
  ones (score \<open>2/5\<close>) relaxes to \<open>6/5\<close>, drops \<open>Gx\<close> (score \<open>1\<close>) and is stationary at
  \<open>{}\<close> alone. Started again from there it first adds \<open>Gx\<close> back, since that lowers the
  score, then drops it again after relaxing: two accepted moves.
\<close>

theorem C4_rerun_accepts_moves:
  "(\<exists>st. local_search (example_cs 2) 2 None (Some (Fl 2)) 100 None = Inr st
         \<and> weights st = [True, False] \<and> last (log st) = Stationary_point_found)
   \<and> (\<exists>st'. local_search (example_cs 2) 2 None (Some (Fl 2)) 100 (Some [True, False]) = Inr st'
         \<and> log st' = [Found_better_neighbor, Moving_to_better_neighbor, No_better_neighbor,
                      Found_better_neighbor, Moving_to_better_neighbor, No_better_neighbor,
                      Stationary_point_found])"
  by (simp add: on_state example_cs_two)

end
